theory Spec2Isabelle
  imports Complex_Main
begin

section \<open>Python arithmetic as the sources use it\<close>

text \<open>
  The four tools (\<open>spa.py\<close>, \<open>sampa.py\<close>, \<open>solpos.py\<close>, \<open>bird.py\<close>) compute with
  Python \<open>int\<close> and \<open>float\<close>. Integers are modelled by \<open>int\<close>, floats by \<open>real\<close>: rounding,
  overflow, infinities and NaN are outside the model. An exception is a value \<open>Inl e\<close>
  of the sum type \<open>error + 'a\<close>.
\<close>

datatype error = ValueError | ZeroDivisionError | TypeError | IndexError | OverflowError

text \<open>\<open>andthen m f\<close> runs \<open>f\<close> on the value of \<open>m\<close>, or passes the exception of \<open>m\<close> on.\<close>

definition andthen :: "error + 'a \<Rightarrow> ('a \<Rightarrow> error + 'b) \<Rightarrow> error + 'b" where
  "andthen m f = (case m of Inl e \<Rightarrow> Inl e | Inr v \<Rightarrow> f v)"

text \<open>\<open>int(x)\<close> on a float truncates toward zero.\<close>

definition py_int :: "real \<Rightarrow> int" where
  "py_int x = (if 0 \<le> x then \<lfloor>x\<rfloor> else \<lceil>x\<rceil>)"

text \<open>\<open>x % y\<close> on floats, for the positive constant moduli the sources use (360, 180, 24, 1).\<close>

definition py_mod :: "real \<Rightarrow> real \<Rightarrow> real" where
  "py_mod x y = x - y * of_int \<lfloor>x / y\<rfloor>"

text \<open>\<open>math.radians\<close> and \<open>math.degrees\<close>.\<close>

definition radians :: "real \<Rightarrow> real" where
  "radians x = x * pi / 180"

definition degrees :: "real \<Rightarrow> real" where
  "degrees x = x * 180 / pi"

text \<open>
  \<open>math.acos\<close>, \<open>math.asin\<close> and \<open>math.sqrt\<close> raise \<open>ValueError\<close> (math domain error)
  outside their domain; a float division by zero raises \<open>ZeroDivisionError\<close>.
\<close>

definition math_acos :: "real \<Rightarrow> error + real" where
  "math_acos x = (if - 1 \<le> x \<and> x \<le> 1 then Inr (arccos x) else Inl ValueError)"

definition math_asin :: "real \<Rightarrow> error + real" where
  "math_asin x = (if - 1 \<le> x \<and> x \<le> 1 then Inr (arcsin x) else Inl ValueError)"

definition math_sqrt :: "real \<Rightarrow> error + real" where
  "math_sqrt x = (if 0 \<le> x then Inr (sqrt x) else Inl ValueError)"

definition fdiv :: "real \<Rightarrow> real \<Rightarrow> error + real" where
  "fdiv a d = (if d = 0 then Inl ZeroDivisionError else Inr (a / d))"

text \<open>
  A float power \<open>x ** y\<close> with a negative base and a fractional exponent is a complex
  number in Python 3. The model keeps of such a number only that it is complex (\<open>Cplx\<close>):
  arithmetic with it stays complex, and \<open>math.exp\<close> and the comparison \<open><\<close> refuse it
  with \<open>TypeError\<close>. \<open>0.0 ** y\<close> raises \<open>ZeroDivisionError\<close> for negative \<open>y\<close>.
\<close>

datatype pyfloat = Real real | Cplx

definition float_pow :: "real \<Rightarrow> real \<Rightarrow> error + pyfloat" where
  "float_pow x y =
     (if y = 0 then Inr (Real 1)
      else if x = 0 then (if y < 0 then Inl ZeroDivisionError else Inr (Real 0))
      else if 0 < x then Inr (Real (x powr y))
      else if of_int \<lfloor>y\<rfloor> = y then Inr (Real (x powi \<lfloor>y\<rfloor>))
      else Inr Cplx)"

definition pmul :: "pyfloat \<Rightarrow> pyfloat \<Rightarrow> pyfloat" where
  "pmul a b = (case (a, b) of (Real x, Real y) \<Rightarrow> Real (x * y) | _ \<Rightarrow> Cplx)"

definition padd :: "pyfloat \<Rightarrow> pyfloat \<Rightarrow> pyfloat" where
  "padd a b = (case (a, b) of (Real x, Real y) \<Rightarrow> Real (x + y) | _ \<Rightarrow> Cplx)"

definition psub :: "pyfloat \<Rightarrow> pyfloat \<Rightarrow> pyfloat" where
  "psub a b = (case (a, b) of (Real x, Real y) \<Rightarrow> Real (x - y) | _ \<Rightarrow> Cplx)"

definition pdiv :: "pyfloat \<Rightarrow> real \<Rightarrow> error + pyfloat" where
  "pdiv a d = (if d = 0 then Inl ZeroDivisionError
               else Inr (case a of Real x \<Rightarrow> Real (x / d) | Cplx \<Rightarrow> Cplx))"

text \<open>
  \<open>math.exp\<close> raises \<open>OverflowError\<close> when its result is beyond the largest double, that
  is for an argument above 709.782712893384. \<open>pow_range\<close> is the range check of the
  power \<open>r ** 2\<close> of bird.py line 68: \<open>OverflowError\<close> from \<open>2 ^ 1024\<close> on, and the value
  0 up to \<open>2 ^ -1075\<close>, half the smallest positive double (the division by it then raises
  \<open>ZeroDivisionError\<close>).
\<close>

definition math_exp :: "pyfloat \<Rightarrow> error + real" where
  "math_exp a =
     (case a of
        Real x \<Rightarrow> (if x > 709.782712893384 then Inl OverflowError else Inr (exp x))
      | Cplx \<Rightarrow> Inl TypeError)"

definition pow_range :: "real \<Rightarrow> error + real" where
  "pow_range v =
     (if 2 ^ 1024 \<le> \<bar>v\<bar> then Inl OverflowError
      else if \<bar>v\<bar> \<le> 1 / 2 ^ 1075 then Inr 0
      else Inr v)"

definition as_float :: "pyfloat \<Rightarrow> error + real" where
  "as_float a = (case a of Real x \<Rightarrow> Inr x | Cplx \<Rightarrow> Inl TypeError)"

section \<open>Julian Day\<close>

text \<open>
  The same ten lines open \<open>spa\<close> (spa.py 672-681), \<open>_sideral_time\<close> (107-116),
  \<open>_geocentric_ra_and_d\<close> (350-359), \<open>sampa\<close> (sampa.py 302-311) and \<open>_sun_distance\<close>
  (88-97):
  \<^verbatim>\<open>
    if month <= 2:
        year -= 1
        month += 12
    second += microsecond / 1000000
    minute += second / 60
    hour += minute / 60
    day += hour / 24
    a = int(year / 100)
    b_for_jd = 2 - a + int(a / 4)
    jd = int(365.25 * (year + 4716)) + int(30.6001 * (month + 1)) + day + b_for_jd - 1524.5
  \<close>
\<close>

definition fold_year :: "int \<Rightarrow> int \<Rightarrow> int" where
  "fold_year year month = (if month \<le> 2 then year - 1 else year)"

definition fold_month :: "int \<Rightarrow> int" where
  "fold_month month = (if month \<le> 2 then month + 12 else month)"

definition fold_day :: "real \<Rightarrow> real \<Rightarrow> real \<Rightarrow> real \<Rightarrow> real \<Rightarrow> real" where
  "fold_day day hour minute second microsecond =
     (let second = second + microsecond / 1000000;
          minute = minute + second / 60;
          hour = hour + minute / 60
      in day + hour / 24)"

definition julian_day :: "int \<Rightarrow> int \<Rightarrow> real \<Rightarrow> real \<Rightarrow> real \<Rightarrow> real \<Rightarrow> real \<Rightarrow> real" where
  "julian_day year0 month0 day0 hour minute second microsecond =
     (let year = fold_year year0 month0;
          month = fold_month month0;
          day = fold_day day0 hour minute second microsecond;
          a = py_int (of_int year / 100);
          b_for_jd = 2 - a + py_int (of_int a / 4)
      in of_int (py_int (365.25 * of_int (year + 4716)))
         + of_int (py_int (30.6001 * of_int (month + 1)))
         + day + of_int b_for_jd - 1524.5)"



lemma py_int_of_int: "py_int (of_int n) = n"
  by (simp add: py_int_def)

subsection \<open>Truncation against floor\<close>










section \<open>The Bird clear sky model\<close>

text \<open>
  \<open>bird\<close> of bird.py, line by line. Inside the guard \<open>0 <= zenith < 90 and r > 0\<close> the two
  bases of the air mass (line 54) are positive, so that power is the real power; every
  other power goes through \<open>float_pow\<close>.
\<close>

definition air_mass :: "real \<Rightarrow> real" where
  "air_mass zenith = (cos (radians zenith) + 0.50572 * (96.07995 - zenith) powr (- 1.6364)) powr (- 1)"

text \<open>The transmittances \<open>tr\<close>, \<open>to\<close>, \<open>tum\<close>, \<open>tw\<close>, \<open>ta\<close> (lines 58-63), then \<open>taa\<close> and \<open>rs\<close> (64, 66).\<close>

definition bird_tr :: "real \<Rightarrow> error + real" where
  "bird_tr m_prime =
     andthen (float_pow m_prime 0.84) (\<lambda>p.
     andthen (float_pow m_prime 1.01) (\<lambda>q.
       math_exp (pmul (pmul (Real (- 0.0903)) p) (psub (Real (1 + m_prime)) q))))"

definition bird_to :: "real \<Rightarrow> error + pyfloat" where
  "bird_to xo =
     andthen (float_pow (1 + 139.48 * xo) (- 0.3034)) (\<lambda>p.
     andthen (float_pow (1 + 0.044 * xo + 0.0003 * xo\<^sup>2) (- 1)) (\<lambda>q.
       Inr (psub (psub (Real 1) (pmul (Real (0.1611 * xo)) p)) (pmul (Real (0.002715 * xo)) q))))"

definition bird_tum :: "real \<Rightarrow> error + real" where
  "bird_tum m_prime =
     andthen (float_pow m_prime 0.26) (\<lambda>p. math_exp (pmul (Real (- 0.0127)) p))"

definition bird_tw :: "real \<Rightarrow> error + pyfloat" where
  "bird_tw xw =
     andthen (float_pow (1 + 79.034 * xw) 0.6828) (\<lambda>p.
       case padd p (Real (6.385 * xw)) of
         Cplx \<Rightarrow> Inr Cplx
       | Real b \<Rightarrow> andthen (float_pow b (- 1)) (\<lambda>q.
           Inr (psub (Real 1) (pmul (Real (2.4959 * xw)) q))))"

definition bird_ta :: "real \<Rightarrow> real \<Rightarrow> error + real" where
  "bird_ta aerosol m =
     andthen (float_pow aerosol 0.873) (\<lambda>p.
     andthen (float_pow aerosol 0.7088) (\<lambda>q.
       math_exp (pmul (pmul (pmul (Real (- 1)) p) (psub (Real (1 + aerosol)) q)) (Real (m powr 0.9108)))))"

definition bird_taa :: "real \<Rightarrow> real \<Rightarrow> real \<Rightarrow> real" where
  "bird_taa k1 m ta = 1 - k1 * (1 - m + m powr 1.06) * (1 - ta)"

definition bird_rs :: "real \<Rightarrow> real \<Rightarrow> real" where
  "bird_rs ba tas = 0.0685 + (1 - ba) * (1 - tas)"

type_synonym bird_return = "real \<times> real \<times> real \<times> real \<times> real \<times> real \<times> real"

text \<open>
  The result is the 7-tuple \<open>(m, direct_normal, it, diffuse_horizontal, direct_normal_mod,
  it_mod, diffuse_horizontal_mod)\<close>. The values \<open>to\<close> and \<open>tw\<close> may be complex; the first
  operation that refuses a complex number is the comparison \<open>direct_normal < 0\<close> of line 74,
  after the divisions of lines 65, 70 and 72.
\<close>

definition bird :: "real \<Rightarrow> real \<Rightarrow> real \<Rightarrow> real \<Rightarrow> real \<Rightarrow> real \<Rightarrow> real \<Rightarrow> real \<Rightarrow> real \<Rightarrow> real
    \<Rightarrow> error + bird_return" where
  "bird r zenith pressure ozone water aerosol albedo dni_mod ba k1 =
     (if 0 \<le> zenith \<and> zenith < 90 \<and> 0 < r then
        let m = air_mass zenith;
            m_prime = m * pressure / 1013;
            xo = ozone * m;
            xw = water * m
        in andthen (bird_tr m_prime) (\<lambda>tr.
           andthen (bird_to xo) (\<lambda>to.
           andthen (bird_tum m_prime) (\<lambda>tum.
           andthen (bird_tw xw) (\<lambda>tw.
           andthen (bird_ta aerosol m) (\<lambda>ta.
           let taa = bird_taa k1 m ta in
           andthen (fdiv ta taa) (\<lambda>tas.
           let rs = bird_rs ba tas in
           andthen (pow_range (r\<^sup>2)) (\<lambda>r2.
           andthen (fdiv 1367 r2) (\<lambda>io.
           let cz = cos (radians zenith);
               id2 = pmul (pmul (Real (io * cz * 0.9662 * tr)) to) (pmul (Real tum) (pmul tw (Real ta)))
           in andthen (pdiv (pmul (pmul (Real (io * cz * 0.79)) to) (pmul tw (Real (tum * taa * (0.5 * (1 - tr) + ba * (1 - tas))))))
                        (1 - m + m powr 1.02)) (\<lambda>ias.
              andthen (pdiv (padd id2 ias) (1 - albedo * rs)) (\<lambda>it.
              andthen (as_float (pmul (pmul (Real (0.9662 * io * tr)) to) (pmul (Real tum) (pmul tw (Real ta))))) (\<lambda>dn.
              andthen (as_float it) (\<lambda>it.
              andthen (as_float ias) (\<lambda>ias.
              let direct_normal = (if dn < 0 then 0 else dn);
                  direct_horizontal = direct_normal * cz;
                  diffuse_horizontal = it - direct_horizontal
              in if 0 \<le> dni_mod then
                   let direct_normal_mod = direct_normal * dni_mod;
                       direct_horizontal_mod = direct_normal_mod * cz
                   in andthen (fdiv (direct_horizontal_mod + ias) (1 - albedo * rs)) (\<lambda>it_mod.
                      Inr (m, direct_normal, it, diffuse_horizontal, direct_normal_mod, it_mod,
                           it_mod - direct_horizontal_mod))
                 else Inr (m, direct_normal, it, diffuse_horizontal, 0, 0, 0))))))))))))))
      else Inr (0, 0, 0, 0, 0, 0, 0))"

subsection \<open>The air mass\<close>

lemma radians_0: "radians 0 = 0" by (simp add: radians_def)

lemma radians_90: "radians 90 = pi / 2" by (simp add: radians_def)

lemma degrees_half_pi: "degrees (pi / 2) = 90" by (simp add: degrees_def)

lemma radians_quadrant: "0 \<le> z \<Longrightarrow> z < 90 \<Longrightarrow> 0 \<le> radians z \<and> radians z < pi / 2"
  by (simp add: radians_def)

lemma cos_zenith_pos: "0 \<le> z \<Longrightarrow> z < 90 \<Longrightarrow> 0 < cos (radians z)"
  using radians_quadrant [of z] by (intro cos_gt_zero_pi) auto

lemma air_mass_pos: "0 \<le> z \<Longrightarrow> z < 90 \<Longrightarrow> 0 < air_mass z"
proof -
  assume z: "0 \<le> z" "z < 90"
  have "0 \<le> 0.50572 * (96.07995 - z) powr (- 1.6364)" by simp
  with cos_zenith_pos [OF z] have "0 < cos (radians z) + 0.50572 * (96.07995 - z) powr (- 1.6364)"
    by linarith
  then show ?thesis unfolding air_mass_def by simp
qed

lemma air_mass_zenith_0: "33 / 50 \<le> air_mass 0 \<and> air_mass 0 \<le> 1"
proof -
  define k :: real where "k = 96.07995 powr (- 1.6364)"
  have k: "0 \<le> k" "k \<le> 1"
    unfolding k_def using powr_mono [of "- 1.6364" 0 "96.07995::real"] by simp_all
  define b where "b = 1 + 0.50572 * k"
  have b: "1 \<le> b" "b \<le> 50 / 33" unfolding b_def using k by simp_all
  have "air_mass 0 = inverse b"
    unfolding air_mass_def b_def k_def radians_0 using b(1) [unfolded b_def k_def]
    by (simp add: powr_minus)
  moreover have "33 / 50 \<le> inverse b"
    using b by (simp add: inverse_eq_divide pos_le_divide_eq)
  moreover have "inverse b \<le> 1"
    using b by (simp add: inverse_eq_divide pos_divide_le_eq)
  ultimately show ?thesis by simp
qed

subsection \<open>The transmittances\<close>

lemma float_pow_nonneg: "0 \<le> x \<Longrightarrow> 0 < y \<Longrightarrow> float_pow x y = Inr (Real (x powr y))"
  by (simp add: float_pow_def)

lemma float_pow_pos: "0 < x \<Longrightarrow> float_pow x y = Inr (Real (x powr y))"
  by (simp add: float_pow_def)

lemma float_pow_cplx: "x < 0 \<Longrightarrow> of_int \<lfloor>y\<rfloor> \<noteq> y \<Longrightarrow> float_pow x y = Inr Cplx"
  by (auto simp add: float_pow_def)

lemma frac84: "of_int \<lfloor>0.84::real\<rfloor> \<noteq> (0.84::real)" by simp

lemma frac101: "of_int \<lfloor>1.01::real\<rfloor> \<noteq> (1.01::real)" by simp

lemma bird_tr_neg: "m' < 0 \<Longrightarrow> bird_tr m' = Inl TypeError"
  using float_pow_cplx [of m' "0.84", OF _ frac84] float_pow_cplx [of m' "1.01", OF _ frac101]
  by (simp add: bird_tr_def andthen_def pmul_def psub_def math_exp_def)

lemma bird_tr_value:
  assumes "0 \<le> m'" "m' \<le> 1"
  shows "bird_tr m' = Inr (exp (- 0.0903 * m' powr 0.84 * (1 + m' - m' powr 1.01)))"
proof -
  have "m' powr 1.01 \<le> 1" using assms by (simp add: powr_le1)
  then have "0 \<le> 1 + m' - m' powr 1.01" using assms by simp
  then have "0 \<le> 0.0903 * m' powr 0.84 * (1 + m' - m' powr 1.01)" by simp
  then have "\<not> - 0.0903 * m' powr 0.84 * (1 + m' - m' powr 1.01) > 709.782712893384" by simp
  then show ?thesis
    using assms(1)
    by (simp add: bird_tr_def float_pow_nonneg andthen_def pmul_def psub_def math_exp_def)
qed

lemma bird_tum_value: "0 \<le> m' \<Longrightarrow> bird_tum m' = Inr (exp (- 0.0127 * m' powr 0.26))"
proof -
  assume m: "0 \<le> m'"
  define q where "q = m' powr 0.26"
  have "0 \<le> q" unfolding q_def by simp
  then have "\<not> - 0.0127 * q > 709.782712893384" by simp
  then have "\<not> - 0.0127 * m' powr 0.26 > 709.782712893384" unfolding q_def .
  then show ?thesis
    using m by (simp add: bird_tum_def float_pow_nonneg andthen_def pmul_def math_exp_def)
qed

lemma bird_ta_clear: "bird_ta 0 m = Inr 1"
  by (simp add: bird_ta_def float_pow_def andthen_def pmul_def psub_def math_exp_def)

lemma ozone_quadratic_pos: "0 \<le> xo \<Longrightarrow> 0 < 1 + 0.044 * xo + 0.0003 * xo\<^sup>2" for xo :: real
proof -
  assume "0 \<le> xo"
  then have "0 \<le> 0.044 * xo" "0 \<le> 0.0003 * xo\<^sup>2" by simp_all
  then show ?thesis by linarith
qed

lemma bird_to_value: "0 \<le> xo \<Longrightarrow>
    bird_to xo = Inr (Real (1 - 0.1611 * xo * (1 + 139.48 * xo) powr (- 0.3034)
                            - 0.002715 * xo * (1 + 0.044 * xo + 0.0003 * xo\<^sup>2) powr (- 1)))"
proof -
  assume x: "0 \<le> xo"
  then have "0 \<le> 139.48 * xo" by simp
  then have a: "0 < 1 + 139.48 * xo" by linarith
  show ?thesis
    unfolding bird_to_def float_pow_pos [OF a] float_pow_pos [OF ozone_quadratic_pos [OF x]]
    by (simp add: andthen_def pmul_def psub_def)
qed

lemma bird_tw_value: "0 \<le> xw \<Longrightarrow>
    bird_tw xw = Inr (Real (1 - 2.4959 * xw * ((1 + 79.034 * xw) powr 0.6828 + 6.385 * xw) powr (- 1)))"
proof -
  assume x: "0 \<le> xw"
  then have "0 \<le> 79.034 * xw" by simp
  then have a: "0 < 1 + 79.034 * xw" by linarith
  then have "0 < (1 + 79.034 * xw) powr 0.6828" by simp
  moreover have "0 \<le> 6.385 * xw" using x by simp
  ultimately have b: "0 < (1 + 79.034 * xw) powr 0.6828 + 6.385 * xw" by linarith
  have "bird_tw xw = andthen (float_pow ((1 + 79.034 * xw) powr 0.6828 + 6.385 * xw) (- 1))
          (\<lambda>q. Inr (psub (Real 1) (pmul (Real (2.4959 * xw)) q)))"
    unfolding bird_tw_def float_pow_pos [OF a] by (simp add: andthen_def padd_def)
  also have "\<dots> = Inr (psub (Real 1) (pmul (Real (2.4959 * xw))
          (Real (((1 + 79.034 * xw) powr 0.6828 + 6.385 * xw) powr (- 1)))))"
    unfolding float_pow_pos [OF b] by (simp add: andthen_def)
  finally show ?thesis by (simp add: pmul_def psub_def)
qed

lemma scatter_denominator_pos: "0 < m \<Longrightarrow> 0 < 1 - m + m powr 1.02" for m :: real
proof (cases "m \<le> 1")
  case True
  assume "0 < m"
  then have "0 < m powr 1.02" by simp
  with True show ?thesis by linarith
next
  case False
  then have "m powr 1 \<le> m powr 1.02" by (intro powr_mono) simp_all
  with False show ?thesis by simp
qed

subsection \<open>What a call returns\<close>

lemma bird_first:
  assumes "0 \<le> z" "z < 90" "0 < r" and "bird r z p oz w a al d ba k1 = Inr res"
  shows "fst res = air_mass z"
  using assms unfolding bird_def Let_def andthen_def
  by (auto split: sum.splits if_splits)

lemma bird_outside:
  "\<not> (0 \<le> z \<and> z < 90 \<and> 0 < r) \<Longrightarrow> bird r z p oz w a al d ba k1 = Inr (0, 0, 0, 0, 0, 0, 0)"
  unfolding bird_def by auto

lemma bird_returns:
  assumes dom: "0 \<le> z" "z < 90" "0 < r"
    and pos: "0 \<le> p" "air_mass z * p / 1013 \<le> 1" "0 \<le> oz" "0 \<le> w"
    and r: "1 / 2 ^ 1075 < r\<^sup>2" "r\<^sup>2 < 2 ^ 1024"
    and al: "al * 0.0685 \<noteq> 1"
  shows "\<exists>res. bird r z p oz w 0 al d ba k1 = Inr res"
proof -
  have m: "0 < air_mass z" using dom by (simp add: air_mass_pos)
  have mp: "0 \<le> air_mass z * p / 1013" using m pos by simp
  have xo: "0 \<le> oz * air_mass z" using m pos by simp
  have xw: "0 \<le> w * air_mass z" using m pos by simp
  have den: "1 - air_mass z + air_mass z powr 1.02 \<noteq> 0"
    using scatter_denominator_pos [OF m] by simp
  have r2: "pow_range (r\<^sup>2) = Inr (r\<^sup>2)" using r by (simp add: pow_range_def)
  have r0: "r\<^sup>2 \<noteq> 0" using dom by simp
  have al': "1 - al * 0.0685 \<noteq> 0" using al by simp
  show ?thesis
    unfolding bird_def Let_def
      bird_tr_value [OF mp pos(2)] bird_tum_value [OF mp] bird_to_value [OF xo] bird_tw_value [OF xw]
      bird_ta_clear r2
    using dom r0 al' den
    by (simp add: andthen_def fdiv_def pdiv_def pmul_def padd_def as_float_def bird_taa_def bird_rs_def)
qed

lemma bird_zenith_returns: "\<exists>res. bird 1 0 1013 0.3 1.5 0 0.2 1 0.85 0.1 = Inr res"
proof -
  have a: "33 / 50 \<le> air_mass 0" "air_mass 0 \<le> 1" using air_mass_zenith_0 by simp_all
  have p: "air_mass 0 * 1013 / 1013 \<le> 1" using a by simp
  have r: "1 / 2 ^ 1075 < (1::real)\<^sup>2" "(1::real)\<^sup>2 < 2 ^ 1024"
  proof -
    have "(1::real) < 2 ^ 1075" by (rule one_less_power) simp_all
    then show "1 / 2 ^ 1075 < (1::real)\<^sup>2" by simp
    have "(1::real) < 2 ^ 1024" by (rule one_less_power) simp_all
    then show "(1::real)\<^sup>2 < 2 ^ 1024" by simp
  qed
  show ?thesis
    by (rule bird_returns [OF _ _ _ _ p _ _ r]) simp_all
qed

text \<open>
  Claim C7 says that \<open>bird\<close> returns the all-zero tuple exactly outside
  \<open>0 \<le> zenith < 90 \<and> r > 0\<close>, and that inside this domain no exception is raised and the
  air mass is positive. As stated it fails: the guard looks at \<open>zenith\<close> and \<open>r\<close> only,
  and with a negative pressure \<open>m_prime ** 0.84\<close> is complex, which \<open>math.exp\<close> refuses
  (line 58).
\<close>

theorem bird_negative_pressure_counterexample:
  "(0::real) \<le> 0 \<and> (0::real) < 90 \<and> (0::real) < 1
   \<and> bird 1 0 (- 1) 0.3 1.5 0.04 0.2 1 0.85 0.1 = Inl TypeError"
proof -
  have "air_mass 0 * (- 1) / 1013 < 0" using air_mass_zenith_0 by simp
  then have "bird_tr (air_mass 0 * (- 1) / 1013) = Inl TypeError" by (rule bird_tr_neg)
  then show ?thesis unfolding bird_def Let_def by (simp add: andthen_def)
qed

text \<open>
  Claim C7, amended: \<open>bird\<close> returns the all-zero tuple if and only if the input is
  outside \<open>0 \<le> zenith < 90 \<and> r > 0\<close>, and inside this domain every result it returns has
  a strictly positive air mass. Inside the domain it can raise: nothing is said of when
  it returns.
\<close>

theorem bird_sentinel:
  "(bird r z p oz w a al d ba k1 = Inr (0, 0, 0, 0, 0, 0, 0) \<longleftrightarrow> \<not> (0 \<le> z \<and> z < 90 \<and> 0 < r))
   \<and> (0 \<le> z \<and> z < 90 \<and> 0 < r \<longrightarrow> (\<forall>res. bird r z p oz w a al d ba k1 = Inr res \<longrightarrow> 0 < fst res))"
proof (intro conjI impI allI)
  show "bird r z p oz w a al d ba k1 = Inr (0, 0, 0, 0, 0, 0, 0) \<longleftrightarrow> \<not> (0 \<le> z \<and> z < 90 \<and> 0 < r)"
  proof
    assume zero: "bird r z p oz w a al d ba k1 = Inr (0, 0, 0, 0, 0, 0, 0)"
    show "\<not> (0 \<le> z \<and> z < 90 \<and> 0 < r)"
    proof
      assume dom: "0 \<le> z \<and> z < 90 \<and> 0 < r"
      then have "fst (0 :: real, 0 :: real, 0 :: real, 0 :: real, 0 :: real, 0 :: real, 0 :: real) = air_mass z"
        using bird_first [OF _ _ _ zero] by blast
      with air_mass_pos [of z] dom show False by simp
    qed
  next
    assume "\<not> (0 \<le> z \<and> z < 90 \<and> 0 < r)"
    then show "bird r z p oz w a al d ba k1 = Inr (0, 0, 0, 0, 0, 0, 0)" by (rule bird_outside)
  qed
next
  fix res
  assume dom: "0 \<le> z \<and> z < 90 \<and> 0 < r" and res: "bird r z p oz w a al d ba k1 = Inr res"
  then have "fst res = air_mass z" using bird_first [OF _ _ _ res] by blast
  with air_mass_pos [of z] dom show "0 < fst res" by simp
qed

text \<open>The theorem at the zenith, with no aerosol, and at \<open>zenith = 90\<close>.\<close>

theorem bird_sentinel_witness:
  "(\<exists>res. bird 1 0 1013 0.3 1.5 0 0.2 1 0.85 0.1 = Inr res \<and> 0 < fst res)
   \<and> bird 1 90 1013 0.3 1.5 0 0.2 1 0.85 0.1 = Inr (0, 0, 0, 0, 0, 0, 0)"
  using bird_sentinel [of 1 0 1013 "0.3" "1.5" 0 "0.2" 1 "0.85" "0.1"]
    bird_sentinel [of 1 90 1013 "0.3" "1.5" 0 "0.2" 1 "0.85" "0.1"]
    bird_zenith_returns
  by simp blast

section \<open>Eclipse geometry in exact arithmetic\<close>

text \<open>
  Lines 462-490 of sampa.py with every operation exact: the note \<open>solar_eclipse\<close> and the
  overlap area \<open>a_i\<close> from the angular separation \<open>ems\<close> and the two angular radii, then
  the unshaded lune. The rounding of the doubles is not in these definitions; what it
  changes is said at the end of the section.
\<close>

definition eclipse_overlap :: "real \<Rightarrow> real \<Rightarrow> real \<Rightarrow> error + (string \<times> real)" where
  "eclipse_overlap ems r_s r_m =
     (let solar_eclipse =
            (if ems > r_m + r_s then ''No Eclipse''
             else if ems = r_m + r_s then ''Start or End of Eclipse''
             else ''Solar Eclipse'')
      in if ems < r_m + r_s then
           (if ems \<le> \<bar>r_m - r_s\<bar> then Inr (''Total Solar Eclipse'', pi * r_m\<^sup>2)
            else
              andthen (fdiv (ems\<^sup>2 + r_s\<^sup>2 - r_m\<^sup>2) (2 * ems)) (\<lambda>s.
              andthen (fdiv (ems\<^sup>2 - r_s\<^sup>2 + r_m\<^sup>2) (2 * ems)) (\<lambda>m.
              andthen (math_sqrt (4 * ems\<^sup>2 * r_s\<^sup>2 - (ems\<^sup>2 + r_s\<^sup>2 - r_m\<^sup>2)\<^sup>2)) (\<lambda>root.
              andthen (fdiv root (2 * ems)) (\<lambda>h.
              let t_s = h * s;
                  t_m = h * m
              in andthen (fdiv s r_s) (\<lambda>qs.
                 andthen (math_acos qs) (\<lambda>acs.
                 let a_s = r_s\<^sup>2 * acs;
                     a_capital_1 = a_s - t_s
                 in andthen (fdiv m r_m) (\<lambda>qm.
                    andthen (math_acos qm) (\<lambda>acm.
                    let a_m = r_m\<^sup>2 * acm;
                        a_capital_2 = a_m - t_m
                    in Inr (''Partial Solar Eclipse'', a_capital_1 + a_capital_2))))))))))
         else Inr (solar_eclipse, 0))"

text \<open>Lines 487-490: the area of the sun's unshaded lune and its percentage.\<close>

definition sul :: "real \<Rightarrow> real \<Rightarrow> error + (real \<times> real)" where
  "sul r_s a_i =
     (let a_sul = pi * r_s\<^sup>2 - a_i;
          a_sul = (if a_sul < 0 then 0 else a_sul)
      in andthen (fdiv (a_sul * 100) (pi * r_s\<^sup>2)) (\<lambda>a_sul_percent.
         Inr (a_sul, a_sul_percent)))"

text \<open>
  The area of the lens two discs of radii \<open>r\<close> and \<open>R\<close> share when their centres are
  \<open>d\<close> apart, as the textbook formula the specification names gives it (section 4.7).
\<close>

definition lens_area_spec :: "real \<Rightarrow> real \<Rightarrow> real \<Rightarrow> real" where
  "lens_area_spec d r R =
     r\<^sup>2 * arccos ((d\<^sup>2 + r\<^sup>2 - R\<^sup>2) / (2 * d * r))
     + R\<^sup>2 * arccos ((d\<^sup>2 + R\<^sup>2 - r\<^sup>2) / (2 * d * R))
     - sqrt ((- d + r + R) * (d + r - R) * (d - r + R) * (d + r + R)) / 2"

text \<open>
  Lines 456-497 of sampa.py, the end of \<open>sampa\<close>: from the topocentric positions of sun
  and moon to the second tuple of the result. \<open>r_capital_s\<close> is the value of
  \<open>_sun_distance\<close> (line 459).
\<close>

type_synonym eclipse_return =
  "real \<times> real \<times> real \<times> real \<times> (real \<times> real \<times> real \<times> real \<times> real \<times> real) \<times> string"

definition sampa_eclipse :: "real \<Rightarrow> real \<Rightarrow> real \<Rightarrow> real \<Rightarrow> real \<Rightarrow> real \<Rightarrow> real \<Rightarrow> real
    \<Rightarrow> real \<Rightarrow> real \<Rightarrow> real \<Rightarrow> real \<Rightarrow> real \<Rightarrow> real \<Rightarrow> real \<Rightarrow> error + eclipse_return" where
  "sampa_eclipse theta_s f_s theta_m f_m e p delta r_capital_s pressure ozone water aerosol albedo ba k1 =
     andthen (math_acos (cos (radians theta_s) * cos (radians theta_m)
                + sin (radians theta_s) * sin (radians theta_m) * cos (radians (f_s - f_m)))) (\<lambda>ac.
     let ems = degrees ac in
     andthen (fdiv 959.63 (3600 * r_capital_s)) (\<lambda>r_s.
     andthen (fdiv (358473400 * (1 + sin (radians e) * sin (radians p))) (3600 * delta)) (\<lambda>r_m.
     andthen (eclipse_overlap ems r_s r_m) (\<lambda>(solar_eclipse, a_i).
     andthen (sul r_s a_i) (\<lambda>(a_sul, a_sul_percent).
     andthen (bird r_capital_s theta_s pressure ozone water aerosol albedo (a_sul_percent / 100) ba k1)
       (\<lambda>(m, direct_normal, it, diffuse_horizontal, direct_normal_mod, it_mod, diffuse_horizontal_mod).
     Inr (r_s, r_m, a_sul, a_sul_percent,
          (direct_normal, direct_normal_mod, it, it_mod, diffuse_horizontal, diffuse_horizontal_mod),
          solar_eclipse)))))))"

subsection \<open>The partial eclipse\<close>

lemma heron: "4 * d\<^sup>2 * r\<^sup>2 - (d\<^sup>2 + r\<^sup>2 - R\<^sup>2)\<^sup>2 = (- d + r + R) * (d + r - R) * (d - r + R) * (d + r + R)"
  for d r R :: real
  by (simp add: power2_eq_square algebra_simps)

lemma heron': "4 * d\<^sup>2 * R\<^sup>2 - (d\<^sup>2 - r\<^sup>2 + R\<^sup>2)\<^sup>2 = (- d + r + R) * (d + r - R) * (d - r + R) * (d + r + R)"
  for d r R :: real
  by (simp add: power2_eq_square algebra_simps)

lemma partial_radii:
  fixes d r R :: real
  assumes "d < R + r" "\<not> d \<le> \<bar>R - r\<bar>"
  shows "0 < r" "0 < R" "0 < d"
  using assms by (auto simp: abs_if split: if_splits)

lemma partial_heron_pos:
  fixes d r R :: real
  assumes "d < R + r" "\<not> d \<le> \<bar>R - r\<bar>"
  shows "0 < (- d + r + R) * (d + r - R) * (d - r + R) * (d + r + R)"
proof -
  have "0 < - d + r + R" "0 < d + r - R" "0 < d - r + R" "0 < d + r + R"
    using assms by (auto simp: abs_if split: if_splits)
  then show ?thesis by simp
qed

lemma partial_cos_bound:
  fixes d r R :: real
  assumes "d < R + r" "\<not> d \<le> \<bar>R - r\<bar>"
  shows "\<bar>(d\<^sup>2 + r\<^sup>2 - R\<^sup>2) / (2 * d)\<bar> < r"
proof -
  note pos = partial_radii [OF assms]
  have "(d\<^sup>2 + r\<^sup>2 - R\<^sup>2)\<^sup>2 < (2 * d * r)\<^sup>2"
    using partial_heron_pos [OF assms] heron [of d r R] by (simp add: power_mult_distrib)
  then have "\<bar>d\<^sup>2 + r\<^sup>2 - R\<^sup>2\<bar>\<^sup>2 < \<bar>2 * d * r\<bar>\<^sup>2"
    by simp
  then have "\<bar>d\<^sup>2 + r\<^sup>2 - R\<^sup>2\<bar> < \<bar>2 * d * r\<bar>"
    by (rule power2_less_imp_less) simp
  then have "\<bar>d\<^sup>2 + r\<^sup>2 - R\<^sup>2\<bar> < r * (2 * d)" using pos by (simp add: abs_mult mult.commute)
  then have "\<bar>d\<^sup>2 + r\<^sup>2 - R\<^sup>2\<bar> / (2 * d) < r"
    using pos by (simp add: pos_divide_less_eq)
  then show ?thesis using pos by simp
qed

lemma segment_nonneg:
  fixes r s :: real
  assumes "0 < r" "\<bar>s\<bar> \<le> r"
  shows "0 \<le> r\<^sup>2 * arccos (s / r) - sqrt (r\<^sup>2 - s\<^sup>2) * s"
proof -
  define c where "c = s / r"
  have c: "- 1 \<le> c" "c \<le> 1"
    using assms unfolding c_def by (simp_all add: pos_le_divide_eq pos_divide_le_eq abs_le_iff)
  define t where "t = arccos c"
  have t: "0 \<le> t" "t \<le> pi" unfolding t_def using arccos_bounded [OF c] by simp_all
  have s: "s = r * cos t" unfolding t_def using c assms by (simp add: c_def)
  have "(r * sin t)\<^sup>2 + (r * cos t)\<^sup>2 = r\<^sup>2"
    by (simp add: power_mult_distrib distrib_left [symmetric])
  then have "r\<^sup>2 - s\<^sup>2 = (r * sin t)\<^sup>2"
    unfolding s by linarith
  moreover have "0 \<le> r * sin t" using assms t by (simp add: sin_ge_zero)
  ultimately have h: "sqrt (r\<^sup>2 - s\<^sup>2) = r * sin t" by simp
  have "sin t * cos t \<le> sin t * 1"
    using sin_ge_zero [OF t] by (intro mult_left_mono) simp_all
  also have "\<dots> \<le> t" using sin_x_le_x [OF t(1)] by simp
  finally have "r\<^sup>2 * (sin t * cos t) \<le> r\<^sup>2 * t"
    by (intro mult_left_mono) simp_all
  then have le: "r\<^sup>2 * (sin t * cos t) \<le> r\<^sup>2 * arccos (s / r)"
    unfolding t_def c_def .
  have "r * sin t * s = r\<^sup>2 * (sin t * cos t)"
    by (subst s) (simp add: power2_eq_square)
  then have e: "sqrt (r\<^sup>2 - s\<^sup>2) * s = r\<^sup>2 * (sin t * cos t)"
    unfolding h .
  show ?thesis unfolding e using le by simp
qed

lemma chord_height:
  fixes d r R :: real
  assumes "0 < d"
  shows "sqrt (4 * d\<^sup>2 * r\<^sup>2 - (d\<^sup>2 + r\<^sup>2 - R\<^sup>2)\<^sup>2) / (2 * d)
       = sqrt (r\<^sup>2 - ((d\<^sup>2 + r\<^sup>2 - R\<^sup>2) / (2 * d))\<^sup>2)"
proof -
  define x where "x = d\<^sup>2 + r\<^sup>2 - R\<^sup>2"
  have a: "sqrt ((2 * d)\<^sup>2) = 2 * d" unfolding real_sqrt_abs using assms by simp
  have "r\<^sup>2 - (x / (2 * d))\<^sup>2 = (4 * d\<^sup>2 * r\<^sup>2 - x\<^sup>2) / (2 * d)\<^sup>2"
    using assms by (simp add: power2_eq_square field_simps)
  then have "sqrt (r\<^sup>2 - (x / (2 * d))\<^sup>2) = sqrt (4 * d\<^sup>2 * r\<^sup>2 - x\<^sup>2) / (2 * d)"
    by (simp only: real_sqrt_divide a)
  then show ?thesis unfolding x_def ..
qed

lemma partial_value:
  fixes d r R :: real
  assumes "d < R + r" "\<not> d \<le> \<bar>R - r\<bar>"
  shows "eclipse_overlap d r R = Inr (''Partial Solar Eclipse'', lens_area_spec d r R)"
proof -
  note pos = partial_radii [OF assms]
  have H: "0 \<le> 4 * d\<^sup>2 * r\<^sup>2 - (d\<^sup>2 + r\<^sup>2 - R\<^sup>2)\<^sup>2"
    using partial_heron_pos [OF assms] unfolding heron by simp
  have unit: "- 1 \<le> y / x \<and> y / x \<le> 1" if "\<bar>y\<bar> < x" for x y :: real
    using that by (simp add: pos_le_divide_eq pos_divide_le_eq abs_less_iff)
  have cs: "- 1 \<le> (d\<^sup>2 + r\<^sup>2 - R\<^sup>2) / (2 * d) / r" "(d\<^sup>2 + r\<^sup>2 - R\<^sup>2) / (2 * d) / r \<le> 1"
    using unit [OF partial_cos_bound [OF assms]] by blast+
  have assms': "d < r + R" "\<not> d \<le> \<bar>r - R\<bar>" using assms by (simp_all add: abs_minus_commute)
  have "\<bar>(d\<^sup>2 + R\<^sup>2 - r\<^sup>2) / (2 * d)\<bar> < R" by (rule partial_cos_bound [OF assms'])
  then have "\<bar>(d\<^sup>2 - r\<^sup>2 + R\<^sup>2) / (2 * d)\<bar> < R" by (simp add: algebra_simps)
  then have cm: "- 1 \<le> (d\<^sup>2 - r\<^sup>2 + R\<^sup>2) / (2 * d) / R" "(d\<^sup>2 - r\<^sup>2 + R\<^sup>2) / (2 * d) / R \<le> 1"
    using unit by blast+
  have sum: "sqrt (4 * d\<^sup>2 * r\<^sup>2 - (d\<^sup>2 + r\<^sup>2 - R\<^sup>2)\<^sup>2) / (2 * d) * ((d\<^sup>2 + r\<^sup>2 - R\<^sup>2) / (2 * d))
           + sqrt (4 * d\<^sup>2 * r\<^sup>2 - (d\<^sup>2 + r\<^sup>2 - R\<^sup>2)\<^sup>2) / (2 * d) * ((d\<^sup>2 - r\<^sup>2 + R\<^sup>2) / (2 * d))
           = sqrt ((- d + r + R) * (d + r - R) * (d - r + R) * (d + r + R)) / 2"
  proof -
    have "(d\<^sup>2 + r\<^sup>2 - R\<^sup>2) / (2 * d) + (d\<^sup>2 - r\<^sup>2 + R\<^sup>2) / (2 * d) = d"
      using pos by (simp add: add_divide_distrib [symmetric] power2_eq_square)
    then have "sqrt (4 * d\<^sup>2 * r\<^sup>2 - (d\<^sup>2 + r\<^sup>2 - R\<^sup>2)\<^sup>2) / (2 * d) * ((d\<^sup>2 + r\<^sup>2 - R\<^sup>2) / (2 * d))
           + sqrt (4 * d\<^sup>2 * r\<^sup>2 - (d\<^sup>2 + r\<^sup>2 - R\<^sup>2)\<^sup>2) / (2 * d) * ((d\<^sup>2 - r\<^sup>2 + R\<^sup>2) / (2 * d))
           = sqrt (4 * d\<^sup>2 * r\<^sup>2 - (d\<^sup>2 + r\<^sup>2 - R\<^sup>2)\<^sup>2) / (2 * d) * d"
      by (simp only: distrib_left [symmetric])
    also have "\<dots> = sqrt (4 * d\<^sup>2 * r\<^sup>2 - (d\<^sup>2 + r\<^sup>2 - R\<^sup>2)\<^sup>2) / 2" using pos by simp
    finally show ?thesis unfolding heron .
  qed
  have q1: "(d\<^sup>2 + r\<^sup>2 - R\<^sup>2) / (2 * d) / r = (d\<^sup>2 + r\<^sup>2 - R\<^sup>2) / (2 * d * r)" by simp
  have q2: "(d\<^sup>2 - r\<^sup>2 + R\<^sup>2) / (2 * d) / R = (d\<^sup>2 + R\<^sup>2 - r\<^sup>2) / (2 * d * R)" by (simp add: algebra_simps)
  have "eclipse_overlap d r R = Inr (''Partial Solar Eclipse'',
          r\<^sup>2 * arccos ((d\<^sup>2 + r\<^sup>2 - R\<^sup>2) / (2 * d) / r)
          - sqrt (4 * d\<^sup>2 * r\<^sup>2 - (d\<^sup>2 + r\<^sup>2 - R\<^sup>2)\<^sup>2) / (2 * d) * ((d\<^sup>2 + r\<^sup>2 - R\<^sup>2) / (2 * d))
          + (R\<^sup>2 * arccos ((d\<^sup>2 - r\<^sup>2 + R\<^sup>2) / (2 * d) / R)
          - sqrt (4 * d\<^sup>2 * r\<^sup>2 - (d\<^sup>2 + r\<^sup>2 - R\<^sup>2)\<^sup>2) / (2 * d) * ((d\<^sup>2 - r\<^sup>2 + R\<^sup>2) / (2 * d))))"
    unfolding eclipse_overlap_def Let_def andthen_def fdiv_def math_sqrt_def math_acos_def
    using assms pos H cs cm by simp
  also have "\<dots> = Inr (''Partial Solar Eclipse'', lens_area_spec d r R)"
  proof -
    define A where "A = r\<^sup>2 * arccos ((d\<^sup>2 + r\<^sup>2 - R\<^sup>2) / (2 * d * r))"
    define B where "B = R\<^sup>2 * arccos ((d\<^sup>2 + R\<^sup>2 - r\<^sup>2) / (2 * d * R))"
    define ts where "ts = sqrt (4 * d\<^sup>2 * r\<^sup>2 - (d\<^sup>2 + r\<^sup>2 - R\<^sup>2)\<^sup>2) / (2 * d) * ((d\<^sup>2 + r\<^sup>2 - R\<^sup>2) / (2 * d))"
    define tm where "tm = sqrt (4 * d\<^sup>2 * r\<^sup>2 - (d\<^sup>2 + r\<^sup>2 - R\<^sup>2)\<^sup>2) / (2 * d) * ((d\<^sup>2 - r\<^sup>2 + R\<^sup>2) / (2 * d))"
    define Q where "Q = sqrt ((- d + r + R) * (d + r - R) * (d - r + R) * (d + r + R)) / 2"
    have "ts + tm = Q" unfolding ts_def tm_def Q_def by (rule sum)
    then have "A - ts + (B - tm) = A + B - Q" by linarith
    then show ?thesis
      unfolding lens_area_spec_def q1 q2 A_def B_def ts_def tm_def Q_def by (simp only:)
  qed
  finally show ?thesis .
qed

lemma partial_area_nonneg:
  fixes d r R :: real
  assumes "d < R + r" "\<not> d \<le> \<bar>R - r\<bar>"
  shows "0 \<le> lens_area_spec d r R"
proof -
  note pos = partial_radii [OF assms]
  have assms': "d < r + R" "\<not> d \<le> \<bar>r - R\<bar>" using assms by (simp_all add: abs_minus_commute)
  define s where "s = (d\<^sup>2 + r\<^sup>2 - R\<^sup>2) / (2 * d)"
  define m where "m = (d\<^sup>2 + R\<^sup>2 - r\<^sup>2) / (2 * d)"
  have s: "\<bar>s\<bar> \<le> r" unfolding s_def using partial_cos_bound [OF assms] by simp
  have m: "\<bar>m\<bar> \<le> R" unfolding m_def using partial_cos_bound [OF assms'] by simp
  have hs: "sqrt (r\<^sup>2 - s\<^sup>2) = sqrt ((- d + r + R) * (d + r - R) * (d - r + R) * (d + r + R)) / (2 * d)"
    unfolding s_def chord_height [OF pos(3), symmetric] heron ..
  have hm: "sqrt (R\<^sup>2 - m\<^sup>2) = sqrt ((- d + r + R) * (d + r - R) * (d - r + R) * (d + r + R)) / (2 * d)"
    unfolding m_def chord_height [OF pos(3), symmetric] heron [of d R r] by (simp add: algebra_simps)
  have sm: "s + m = d" unfolding s_def m_def
    using pos by (simp add: add_divide_distrib [symmetric] power2_eq_square)
  have "sqrt (r\<^sup>2 - s\<^sup>2) * s + sqrt (R\<^sup>2 - m\<^sup>2) * m
      = sqrt ((- d + r + R) * (d + r - R) * (d - r + R) * (d + r + R)) / (2 * d) * (s + m)"
    unfolding hs hm by (simp add: distrib_left)
  also have "\<dots> = sqrt ((- d + r + R) * (d + r - R) * (d - r + R) * (d + r + R)) / 2"
    unfolding sm using pos by simp
  finally have t: "sqrt ((- d + r + R) * (d + r - R) * (d - r + R) * (d + r + R)) / 2
      = sqrt (r\<^sup>2 - s\<^sup>2) * s + sqrt (R\<^sup>2 - m\<^sup>2) * m" by simp
  have qs: "(d\<^sup>2 + r\<^sup>2 - R\<^sup>2) / (2 * d * r) = s / r" unfolding s_def by simp
  have qm: "(d\<^sup>2 + R\<^sup>2 - r\<^sup>2) / (2 * d * R) = m / R" unfolding m_def by simp
  show ?thesis
    unfolding lens_area_spec_def t qs qm
    using segment_nonneg [OF pos(1) s] segment_nonneg [OF pos(2) m] by linarith
qed

subsection \<open>All four cases\<close>

lemma overlap_cases:
  "eclipse_overlap ems r_s r_m =
     (if ems > r_m + r_s then Inr (''No Eclipse'', 0)
      else if ems = r_m + r_s then Inr (''Start or End of Eclipse'', 0)
      else if ems \<le> \<bar>r_m - r_s\<bar> then Inr (''Total Solar Eclipse'', pi * r_m\<^sup>2)
      else Inr (''Partial Solar Eclipse'', lens_area_spec ems r_s r_m))"
proof -
  consider "ems > r_m + r_s" | "ems = r_m + r_s" | "ems < r_m + r_s" "ems \<le> \<bar>r_m - r_s\<bar>"
    | "ems < r_m + r_s" "\<not> ems \<le> \<bar>r_m - r_s\<bar>" by linarith
  then show ?thesis
  proof cases
    case 1 then show ?thesis by (simp add: eclipse_overlap_def)
  next
    case 2 then show ?thesis by (simp add: eclipse_overlap_def)
  next
    case 3 then show ?thesis by (simp add: eclipse_overlap_def)
  next
    case 4 then show ?thesis using partial_value [OF 4] by simp
  qed
qed

lemma sul_bounds:
  assumes "r_s \<noteq> 0" "0 \<le> a_i"
  shows "\<exists>a_sul pct. sul r_s a_i = Inr (a_sul, pct) \<and> 0 \<le> a_sul \<and> 0 \<le> pct \<and> pct \<le> 100"
proof -
  have d: "0 < pi * r_s\<^sup>2" using assms by simp
  define a where "a = (if pi * r_s\<^sup>2 - a_i < 0 then 0 else pi * r_s\<^sup>2 - a_i)"
  have a: "0 \<le> a" "a \<le> pi * r_s\<^sup>2" using assms unfolding a_def by auto
  have "sul r_s a_i = Inr (a, a * 100 / (pi * r_s\<^sup>2))"
    using d assms unfolding sul_def Let_def a_def fdiv_def andthen_def by simp
  moreover have "0 \<le> a * 100 / (pi * r_s\<^sup>2)" using a d by simp
  moreover have "a * 100 / (pi * r_s\<^sup>2) \<le> 100" using a d by (simp add: pos_divide_le_eq)
  ultimately show ?thesis using a by blast
qed

lemma overlap_nonneg: "eclipse_overlap ems r_s r_m = Inr (note, a_i) \<Longrightarrow> 0 \<le> a_i"
  unfolding overlap_cases using partial_area_nonneg [of ems r_m r_s]
  by (auto split: if_splits)

text \<open>
  In exact arithmetic the classification follows the geometry: whatever the separation
  and the radii (the solar radius not zero), lines 462-490 raise nothing; the note is
  \<open>No Eclipse\<close> when \<open>ems > r_m + r_s\<close>, \<open>Start or End of Eclipse\<close> when the two are
  equal, \<open>Total Solar Eclipse\<close> with overlap \<open>\<pi> r_m\<^sup>2\<close> when \<open>ems < r_m + r_s\<close> and
  \<open>ems \<le> |r_m - r_s|\<close>, and otherwise \<open>Partial Solar Eclipse\<close> with the lens area as
  overlap; and the percentage of the unshaded lune lies between 0 and 100.
\<close>

lemma exact_classification:
  assumes "r_s \<noteq> 0"
  shows "\<exists>note a_i a_sul pct.
      eclipse_overlap ems r_s r_m = Inr (note, a_i) \<and> sul r_s a_i = Inr (a_sul, pct)
    \<and> (ems > r_m + r_s \<longrightarrow> note = ''No Eclipse'')
    \<and> (ems = r_m + r_s \<longrightarrow> note = ''Start or End of Eclipse'')
    \<and> (ems < r_m + r_s \<and> ems \<le> \<bar>r_m - r_s\<bar> \<longrightarrow> note = ''Total Solar Eclipse'' \<and> a_i = pi * r_m\<^sup>2)
    \<and> (ems < r_m + r_s \<and> \<not> ems \<le> \<bar>r_m - r_s\<bar>
         \<longrightarrow> note = ''Partial Solar Eclipse'' \<and> a_i = lens_area_spec ems r_s r_m)
    \<and> 0 \<le> pct \<and> pct \<le> 100"
proof -
  have "\<exists>nt a_i. eclipse_overlap ems r_s r_m = Inr (nt, a_i)"
    unfolding overlap_cases by simp
  then obtain nt a_i where o: "eclipse_overlap ems r_s r_m = Inr (nt, a_i)"
    by blast
  obtain a_sul pct where s: "sul r_s a_i = Inr (a_sul, pct)" "0 \<le> pct" "pct \<le> 100"
    using sul_bounds [OF assms overlap_nonneg [OF o]] by blast
  have "(ems > r_m + r_s \<longrightarrow> nt = ''No Eclipse'')
    \<and> (ems = r_m + r_s \<longrightarrow> nt = ''Start or End of Eclipse'')
    \<and> (ems < r_m + r_s \<and> ems \<le> \<bar>r_m - r_s\<bar> \<longrightarrow> nt = ''Total Solar Eclipse'' \<and> a_i = pi * r_m\<^sup>2)
    \<and> (ems < r_m + r_s \<and> \<not> ems \<le> \<bar>r_m - r_s\<bar>
         \<longrightarrow> nt = ''Partial Solar Eclipse'' \<and> a_i = lens_area_spec ems r_s r_m)"
    using o unfolding overlap_cases by (auto split: if_splits)
  with o s show ?thesis by blast
qed

text \<open>
  Claims C6 and C10 are about the doubles the program computes with, and there the
  bound and the identity are lost. With no eclipse \<open>a_i\<close> is 0, \<open>a_sul\<close> is the double
  \<open>x = math.pi * r_s ** 2\<close>, and the percentage is \<open>(x * 100) / x\<close>, which is not \<open>100.0\<close>
  for every double \<open>x\<close>. For \<open>sampa(2000, 1, 22, 6, 0, 0, 0, 0, 90, 0, 1013, 10, dt=0)\<close>, a day
  after full moon, \<open>_sun_distance\<close> is \<open>0.9841092766409595\<close>, \<open>r_s\<close> is
  \<open>0.27086818020733033\<close>, \<open>x\<close> is \<open>0.23049730540404115\<close> and the percentage is
  \<open>100.00000000000001\<close>, above 100 (claim C6); \<open>bird\<close> is then called with
  \<open>dni_mod = 1.0000000000000002\<close>, and \<open>direct_normal_mod = direct_normal * dni_mod\<close>
  is not \<open>direct_normal\<close> (claim C10). The code clamps \<open>a_sul\<close> at 0 from below (line 488)
  and has no clamp at \<open>math.pi * r_s ** 2\<close> from above.
\<close>

section \<open>The coefficient tables\<close>

text \<open>
  The tables of periodic terms, as the sources list them: the Earth terms and the
  nutation terms of \<open>spa.py\<close> (repeated verbatim in each function of \<open>spa.py\<close> and
  \<open>sampa.py\<close> that uses them) and the Moon terms of \<open>sampa.py\<close>. A row is a tuple; an
  entry \<open>None\<close> of the source is \<open>None\<close> here.
\<close>

definition earth_periodic_terms_l0 :: "(real \<times> real \<times> real) list" where
  "earth_periodic_terms_l0 =
    [(175347046, 0, 0), (3341656, 4.6692568, 6283.07585), (34894, 4.6261, 12566.1517),
     (3497, 2.7441, 5753.3849), (3418, 2.8289, 3.5231), (3136, 3.6277, 77713.7715),
     (2676, 4.4181, 7860.4194), (2343, 6.1352, 3930.2097), (1324, 0.7425, 11506.7698),
     (1273, 2.0371, 529.691), (1199, 1.1096, 1577.3435), (990, 5.233, 5884.927),
     (902, 2.045, 26.298), (857, 3.508, 398.149), (780, 1.179, 5223.694),
     (753, 2.533, 5507.553), (505, 4.583, 18849.228), (492, 4.205, 775.523), (357, 2.92, 0.067),
     (317, 5.849, 11790.629), (284, 1.899, 796.298), (271, 0.315, 10977.079),
     (243, 0.345, 5486.778), (206, 4.806, 2544.314), (205, 1.869, 5573.143),
     (202, 2.458, 6069.777), (156, 0.833, 213.299), (132, 3.411, 2942.463),
     (126, 1.083, 20.775), (115, 0.645, 0.98), (103, 0.636, 4694.003), (102, 0.976, 15720.839),
     (102, 4.267, 7.114), (99, 6.21, 2146.17), (98, 0.68, 155.42), (86, 5.98, 161000.69),
     (85, 1.3, 6275.96), (85, 3.67, 71430.7), (80, 1.81, 17260.15), (79, 3.04, 12036.46),
     (75, 1.76, 5088.63), (74, 3.5, 3154.69), (74, 4.68, 801.82), (70, 0.83, 9437.76),
     (62, 3.98, 8827.39), (61, 1.82, 7084.9), (57, 2.78, 6286.6), (56, 4.39, 14143.5),
     (56, 3.47, 6279.55), (52, 0.19, 12139.55), (52, 1.33, 1748.02), (51, 0.28, 5856.48),
     (49, 0.49, 1194.45), (41, 5.37, 8429.24), (41, 2.4, 19651.05), (39, 6.17, 10447.39),
     (37, 6.04, 10213.29), (37, 2.57, 1059.38), (36, 1.71, 2352.87), (36, 1.78, 6812.77),
     (33, 0.59, 17789.85), (30, 0.44, 83996.85), (30, 2.74, 1349.87), (25, 3.16, 4690.48)]"

definition earth_periodic_terms_l1 :: "(real \<times> real \<times> real) list" where
  "earth_periodic_terms_l1 =
    [(628331966747, 0, 0), (206059, 2.678235, 6283.07585), (4303, 2.6351, 12566.1517),
     (425, 1.59, 3.523), (119, 5.796, 26.298), (109, 2.966, 1577.344), (93, 2.59, 18849.23),
     (72, 1.14, 529.69), (68, 1.87, 398.15), (67, 4.41, 5507.55), (59, 2.89, 5223.69),
     (56, 2.17, 155.42), (45, 0.4, 796.3), (36, 0.47, 775.52), (29, 2.65, 7.11),
     (21, 5.34, 0.98), (19, 1.85, 5486.78), (19, 4.97, 213.3), (17, 2.99, 6275.96),
     (16, 0.03, 2544.31), (16, 1.43, 2146.17), (15, 1.21, 10977.08), (12, 2.83, 1748.02),
     (12, 3.26, 5088.63), (12, 5.27, 1194.45), (12, 2.08, 4694), (11, 0.77, 553.57),
     (10, 1.3, 6286.6), (10, 4.24, 1349.87), (9, 2.7, 242.73), (9, 5.64, 951.72),
     (8, 5.3, 2352.87), (6, 2.65, 9437.76), (6, 4.67, 4690.48)]"

definition earth_periodic_terms_l2 :: "(real \<times> real \<times> real) list" where
  "earth_periodic_terms_l2 =
    [(52919, 0, 0), (8720, 1.0721, 6283.0758), (309, 0.867, 12566.152), (27, 0.05, 3.52),
     (16, 5.19, 26.3), (16, 3.68, 155.42), (10, 0.76, 18849.23), (9, 2.06, 77713.77),
     (7, 0.83, 775.52), (5, 4.66, 1577.34), (4, 1.03, 7.11), (4, 3.44, 5573.14),
     (3, 5.14, 796.3), (3, 6.05, 5507.55), (3, 1.19, 242.73), (3, 6.12, 529.69),
     (3, 0.31, 398.15), (3, 2.28, 553.57), (2, 4.38, 5223.69), (2, 3.75, 0.98)]"

definition earth_periodic_terms_l3 :: "(real \<times> real \<times> real) list" where
  "earth_periodic_terms_l3 =
    [(289, 5.844, 6283.076), (35, 0, 0), (17, 5.49, 12566.15), (3, 5.2, 155.42),
     (1, 4.72, 3.52), (1, 5.3, 18849.23), (1, 5.97, 242.73)]"

definition earth_periodic_terms_l4 :: "(real \<times> real \<times> real) list" where
  "earth_periodic_terms_l4 =
    [(114, 3.142, 0), (8, 4.13, 6283.08), (1, 3.84, 12566.15)]"

definition earth_periodic_terms_l5 :: "(real \<times> real \<times> real) list" where
  "earth_periodic_terms_l5 =
    [(1, 3.14, 0)]"

definition earth_periodic_terms_b0 :: "(real \<times> real \<times> real) list" where
  "earth_periodic_terms_b0 =
    [(280, 3.199, 84334.662), (102, 5.422, 5507.553), (80, 3.88, 5223.69), (44, 3.7, 2352.87),
     (32, 4, 1577.34)]"

definition earth_periodic_terms_b1 :: "(real \<times> real \<times> real) list" where
  "earth_periodic_terms_b1 =
    [(9, 3.9, 5507.55), (6, 1.73, 5223.69)]"

definition earth_periodic_terms_r0 :: "(real \<times> real \<times> real) list" where
  "earth_periodic_terms_r0 =
    [(100013989, 0, 0), (1670700, 3.0984635, 6283.07585), (13956, 3.05525, 12566.1517),
     (3084, 5.1985, 77713.7715), (1628, 1.1739, 5753.3849), (1576, 2.8469, 7860.4194),
     (925, 5.453, 11506.77), (542, 4.564, 3930.21), (472, 3.661, 5884.927),
     (346, 0.964, 5507.553), (329, 5.9, 5223.694), (307, 0.299, 5573.143),
     (243, 4.273, 11790.629), (212, 5.847, 1577.344), (186, 5.022, 10977.079),
     (175, 3.012, 18849.228), (110, 5.055, 5486.778), (98, 0.89, 6069.78), (86, 5.69, 15720.84),
     (86, 1.27, 161000.69), (65, 0.27, 17260.15), (63, 0.92, 529.69), (57, 2.01, 83996.85),
     (56, 5.24, 71430.7), (49, 3.25, 2544.31), (47, 2.58, 775.52), (45, 5.54, 9437.76),
     (43, 6.01, 6275.96), (39, 5.36, 4694), (38, 2.39, 8827.39), (37, 0.83, 19651.05),
     (37, 4.9, 12139.55), (36, 1.67, 12036.46), (35, 1.84, 2942.46), (33, 0.24, 7084.9),
     (32, 0.18, 5088.63), (32, 1.78, 398.15), (28, 1.21, 6286.6), (28, 1.9, 6279.55),
     (26, 4.59, 10447.39)]"

definition earth_periodic_terms_r1 :: "(real \<times> real \<times> real) list" where
  "earth_periodic_terms_r1 =
    [(103019, 1.10749, 6283.07585), (1721, 1.0644, 12566.1517), (702, 3.142, 0),
     (32, 1.02, 18849.23), (31, 2.84, 5507.55), (25, 1.32, 5223.69), (18, 1.42, 1577.34),
     (10, 5.91, 10977.08), (9, 1.42, 6275.96), (9, 0.27, 5486.78)]"

definition earth_periodic_terms_r2 :: "(real \<times> real \<times> real) list" where
  "earth_periodic_terms_r2 =
    [(4359, 5.7846, 6283.0758), (124, 5.579, 12566.152), (12, 3.14, 0), (9, 3.63, 77713.77),
     (6, 1.87, 5573.14), (3, 5.47, 18849.23)]"

definition earth_periodic_terms_r3 :: "(real \<times> real \<times> real) list" where
  "earth_periodic_terms_r3 =
    [(145, 4.273, 6283.076), (7, 3.92, 12566.15)]"

definition earth_periodic_terms_r4 :: "(real \<times> real \<times> real) list" where
  "earth_periodic_terms_r4 =
    [(4, 2.56, 6283.08)]"

definition coefficients_for_sin_terms :: "(real \<times> real \<times> real \<times> real \<times> real) list" where
  "coefficients_for_sin_terms =
    [(0, 0, 0, 0, 1), (- 2, 0, 0, 2, 2), (0, 0, 0, 2, 2), (0, 0, 0, 0, 2), (0, 1, 0, 0, 0),
     (0, 0, 1, 0, 0), (- 2, 1, 0, 2, 2), (0, 0, 0, 2, 1), (0, 0, 1, 2, 2), (- 2, - 1, 0, 2, 2),
     (- 2, 0, 1, 0, 0), (- 2, 0, 0, 2, 1), (0, 0, - 1, 2, 2), (2, 0, 0, 0, 0), (0, 0, 1, 0, 1),
     (2, 0, - 1, 2, 2), (0, 0, - 1, 0, 1), (0, 0, 1, 2, 1), (- 2, 0, 2, 0, 0),
     (0, 0, - 2, 2, 1), (2, 0, 0, 2, 2), (0, 0, 2, 2, 2), (0, 0, 2, 0, 0), (- 2, 0, 1, 2, 2),
     (0, 0, 0, 2, 0), (- 2, 0, 0, 2, 0), (0, 0, - 1, 2, 1), (0, 2, 0, 0, 0), (2, 0, - 1, 0, 1),
     (- 2, 2, 0, 2, 2), (0, 1, 0, 0, 1), (- 2, 0, 1, 0, 1), (0, - 1, 0, 0, 1),
     (0, 0, 2, - 2, 0), (2, 0, - 1, 2, 1), (2, 0, 1, 2, 2), (0, 1, 0, 2, 2), (- 2, 1, 1, 0, 0),
     (0, - 1, 0, 2, 2), (2, 0, 0, 2, 1), (2, 0, 1, 0, 0), (- 2, 0, 2, 2, 2), (- 2, 0, 1, 2, 1),
     (2, 0, - 2, 0, 1), (2, 0, 0, 0, 1), (0, - 1, 1, 0, 0), (- 2, - 1, 0, 2, 1),
     (- 2, 0, 0, 0, 1), (0, 0, 2, 2, 1), (- 2, 0, 2, 0, 1), (- 2, 1, 0, 2, 1),
     (0, 0, 1, - 2, 0), (- 1, 0, 1, 0, 0), (- 2, 1, 0, 0, 0), (1, 0, 0, 0, 0), (0, 0, 1, 2, 0),
     (0, 0, - 2, 2, 2), (- 1, - 1, 1, 0, 0), (0, 1, 1, 0, 0), (0, - 1, 1, 2, 2),
     (2, - 1, - 1, 2, 2), (0, 0, 3, 2, 2), (2, - 1, 0, 2, 2)]"

definition coefficients_for_dy :: "(real option \<times> real option) list" where
  "coefficients_for_dy =
    [(Some (- 171996), Some (- 174.2)), (Some (- 13187), Some (- 1.6)),
     (Some (- 2274), Some (- 0.2)), (Some 2062, Some 0.2), (Some 1426, Some (- 3.4)),
     (Some 712, Some 0.1), (Some (- 517), Some 1.2), (Some (- 386), Some (- 0.4)),
     (Some (- 301), None), (Some 217, Some (- 0.5)), (Some (- 158), None), (Some 129, Some 0.1),
     (Some 123, None), (Some 63, None), (Some 63, Some 0.1), (Some (- 59), None),
     (Some (- 58), Some (- 0.1)), (Some (- 51), None), (Some 48, None), (Some 46, None),
     (Some (- 38), None), (Some (- 31), None), (Some 29, None), (Some 29, None),
     (Some 26, None), (Some (- 22), None), (Some 21, None), (Some 17, Some (- 0.1)),
     (Some 16, None), (Some (- 16), Some 0.1), (Some (- 15), None), (Some (- 13), None),
     (Some (- 12), None), (Some 11, None), (Some (- 10), None), (Some (- 8), None),
     (Some 7, None), (Some (- 7), None), (Some (- 7), None), (Some (- 7), None), (Some 6, None),
     (Some 6, None), (Some 6, None), (Some (- 6), None), (Some (- 6), None), (Some 5, None),
     (Some (- 5), None), (Some (- 5), None), (Some (- 5), None), (Some 4, None), (Some 4, None),
     (Some 4, None), (Some (- 4), None), (Some (- 4), None), (Some (- 4), None), (Some 3, None),
     (Some (- 3), None), (Some (- 3), None), (Some (- 3), None), (Some (- 3), None),
     (Some (- 3), None), (Some (- 3), None), (Some (- 3), None)]"

definition coefficients_for_de :: "(real option \<times> real option) list" where
  "coefficients_for_de =
    [(Some 92025, Some 8.9), (Some 5736, Some (- 3.1)), (Some 977, Some (- 0.5)),
     (Some (- 895), Some 0.5), (Some 54, Some (- 0.1)), (Some (- 7), None),
     (Some 224, Some (- 0.6)), (Some 200, None), (Some 129, Some (- 0.1)),
     (Some (- 95), Some 0.3), (None, None), (Some (- 70), None), (Some (- 53), None),
     (None, None), (Some (- 33), None), (Some 26, None), (Some 32, None), (Some 27, None),
     (None, None), (Some (- 24), None), (Some 16, None), (Some 13, None), (None, None),
     (Some (- 12), None), (None, None), (None, None), (Some (- 10), None), (None, None),
     (Some (- 8), None), (Some 7, None), (Some 9, None), (Some 7, None), (Some 6, None),
     (None, None), (Some 5, None), (Some 3, None), (Some (- 3), None), (None, None),
     (Some 3, None), (Some 3, None), (None, None), (Some (- 3), None), (Some (- 3), None),
     (Some 3, None), (Some 3, None), (None, None), (Some 3, None), (Some 3, None),
     (Some 3, None), (None, None), (None, None), (None, None), (None, None), (None, None),
     (None, None), (None, None), (None, None), (None, None), (None, None), (None, None),
     (None, None), (None, None), (None, None)]"

definition moon_periodic_terms :: "(real \<times> real \<times> real \<times> real \<times> real option \<times> real option) list" where
  "moon_periodic_terms =
    [(0, 0, 1, 0, Some 6288774, Some (- 20905355)),
     (2, 0, - 1, 0, Some 1274027, Some (- 3699111)),
     (2, 0, 0, 0, Some 658314, Some (- 2955968)), (0, 0, 2, 0, Some 213618, Some (- 569925)),
     (0, 1, 0, 0, Some (- 185116), Some 48888), (0, 0, 0, 2, Some (- 114332), Some (- 3149)),
     (2, 0, - 2, 0, Some 58793, Some 246158), (2, - 1, - 1, 0, Some 57066, Some (- 152138)),
     (2, 0, 1, 0, Some 53322, Some (- 170733)), (2, - 1, 0, 0, Some 45758, Some (- 204586)),
     (0, 1, - 1, 0, Some (- 40923), Some (- 129620)), (1, 0, 0, 0, Some (- 34720), Some 108743),
     (0, 1, 1, 0, Some (- 30383), Some 104755), (2, 0, 0, - 2, Some 15327, Some 10321),
     (0, 0, 1, 2, Some (- 12528), None), (0, 0, 1, - 2, Some 10980, Some 79661),
     (4, 0, - 1, 0, Some 10675, Some (- 34782)), (0, 0, 3, 0, Some 10034, Some (- 23210)),
     (4, 0, - 2, 0, Some 8548, Some (- 21636)), (2, 1, - 1, 0, Some (- 7888), Some 24208),
     (2, 1, 0, 0, Some (- 6766), Some 30824), (1, 0, - 1, 0, Some (- 5163), Some (- 8379)),
     (1, 1, 0, 0, Some 4987, Some (- 16675)), (2, - 1, 1, 0, Some 4036, Some (- 12831)),
     (2, 0, 2, 0, Some 3994, Some (- 10445)), (4, 0, 0, 0, Some 3861, Some (- 11650)),
     (2, 0, - 3, 0, Some 3665, Some 14403), (0, 1, - 2, 0, Some (- 2689), Some (- 7003)),
     (2, 0, - 1, 2, Some (- 2602), None), (2, - 1, - 2, 0, Some 2390, Some 10056),
     (1, 0, 1, 0, Some (- 2348), Some 6322), (2, - 2, 0, 0, Some 2236, Some (- 9884)),
     (0, 1, 2, 0, Some (- 2120), Some 5751), (0, 2, 0, 0, Some (- 2069), None),
     (2, - 2, - 1, 0, Some 2048, Some (- 4950)), (2, 0, 1, - 2, Some (- 1773), Some 4130),
     (2, 0, 0, 2, Some (- 1595), None), (4, - 1, - 1, 0, Some 1215, Some (- 3958)),
     (0, 0, 2, 2, Some (- 1110), None), (3, 0, - 1, 0, Some (- 892), Some 3258),
     (2, 1, 1, 0, Some (- 810), Some 2616), (4, - 1, - 2, 0, Some 759, Some (- 1897)),
     (0, 2, - 1, 0, Some (- 713), Some (- 2117)), (2, 2, - 1, 0, Some (- 700), Some 2354),
     (2, 1, - 2, 0, Some 691, None), (2, - 1, 0, - 2, Some 596, None),
     (4, 0, 1, 0, Some 549, Some (- 1423)), (0, 0, 4, 0, Some 537, Some (- 1117)),
     (4, - 1, 0, 0, Some 520, Some (- 1571)), (1, 0, - 2, 0, Some (- 487), Some (- 1739)),
     (2, 1, 0, - 2, Some (- 399), None), (0, 0, 2, - 2, Some (- 381), Some (- 4421)),
     (1, 1, 1, 0, Some 351, None), (3, 0, - 2, 0, Some (- 340), None),
     (4, 0, - 3, 0, Some 330, None), (2, - 1, 2, 0, Some 327, None),
     (0, 2, 1, 0, Some (- 323), Some 1165), (1, 1, - 1, 0, Some 299, None),
     (2, 0, 3, 0, Some 294, None), (2, 0, - 1, - 2, None, Some 8752)]"

definition periodic_terms_for_moon_latitude :: "(real \<times> real \<times> real \<times> real \<times> real) list" where
  "periodic_terms_for_moon_latitude =
    [(0, 0, 0, 1, 5128122), (0, 0, 1, 1, 280602), (0, 0, 1, - 1, 277693),
     (2, 0, 0, - 1, 173237), (2, 0, - 1, 1, 55413), (2, 0, - 1, - 1, 46271),
     (2, 0, 0, 1, 32573), (0, 0, 2, 1, 17198), (2, 0, 1, - 1, 9266), (0, 0, 2, - 1, 8822),
     (2, - 1, 0, - 1, 8216), (2, 0, - 2, - 1, 4324), (2, 0, 1, 1, 4200), (2, 1, 0, - 1, - 3359),
     (2, - 1, - 1, 1, 2463), (2, - 1, 0, 1, 2211), (2, - 1, - 1, - 1, 2065),
     (0, 1, - 1, - 1, - 1870), (4, 0, - 1, - 1, 1828), (0, 1, 0, 1, - 1794),
     (0, 0, 0, 3, - 1749), (0, 1, - 1, 1, - 1565), (1, 0, 0, 1, - 1491), (0, 1, 1, 1, - 1475),
     (0, 1, 1, - 1, - 1410), (0, 1, 0, - 1, - 1344), (1, 0, 0, - 1, - 1335), (0, 0, 3, 1, 1107),
     (4, 0, 0, - 1, 1021), (4, 0, - 1, 1, 833), (0, 0, 1, - 3, 777), (4, 0, - 2, 1, 671),
     (2, 0, 0, - 3, 607), (2, 0, 2, - 1, 596), (2, - 1, 1, - 1, 491), (2, 0, - 2, 1, - 451),
     (0, 0, 3, - 1, 439), (2, 0, 2, 1, 422), (2, 0, - 3, - 1, 421), (2, 1, - 1, 1, - 366),
     (2, 1, 0, 1, - 351), (4, 0, 0, 1, 331), (2, - 1, 1, 1, 315), (2, - 2, 0, - 1, 302),
     (0, 0, 1, 3, - 283), (2, 1, 1, - 1, - 229), (1, 1, 0, - 1, 223), (1, 1, 0, 1, 223),
     (0, 1, - 2, - 1, - 220), (2, 1, - 1, - 1, - 220), (1, 0, 1, 1, - 185),
     (2, - 1, - 2, - 1, 181), (0, 1, 2, 1, - 177), (4, 0, - 2, - 1, 176),
     (4, - 1, - 1, - 1, 166), (1, 0, 1, - 1, - 164), (4, 0, 1, - 1, 132),
     (1, 0, - 1, - 1, - 119), (4, - 1, 0, - 1, 115), (2, - 2, 0, 1, 107)]"

section \<open>The Solar Position Algorithm\<close>

text \<open>
  \<open>math.atan2\<close>, and the one division by a tangent of the refraction correction:
  \<open>math.tan\<close> is total on floats, and the division raises when the tangent is zero.
\<close>

definition math_atan2 :: "real \<Rightarrow> real \<Rightarrow> real" where
  "math_atan2 y x =
     (if 0 < x then arctan (y / x)
      else if x < 0 then (if 0 \<le> y then arctan (y / x) + pi else arctan (y / x) - pi)
      else if 0 < y then pi / 2
      else if y < 0 then - (pi / 2)
      else 0)"

definition div_by_tan :: "real \<Rightarrow> real \<Rightarrow> real \<Rightarrow> error + real" where
  "div_by_tan a k x = (if sin x = 0 then Inl ZeroDivisionError else Inr (a / (k * tan x)))"

text \<open>
  The nutation coefficient tables with \<open>None\<close> replaced by 0 (\<open>cfdy\<close>, \<open>cfde\<close>), the time
  scales, the nutation in longitude and obliquity, and the heliocentric longitude,
  latitude and radius vector (spa.py 682-775). The same lines are the bodies of
  \<open>_sideral_time\<close>, \<open>_geocentric_ra_and_d\<close> and \<open>_sun_distance\<close>.
\<close>

definition none_to_zero :: "real option \<Rightarrow> real" where
  "none_to_zero v = (case v of None \<Rightarrow> 0 | Some x \<Rightarrow> x)"

definition cfdy :: "(real \<times> real) list" where
  "cfdy = map (\<lambda>(a, b). (none_to_zero a, none_to_zero b)) coefficients_for_dy"

definition cfde :: "(real \<times> real) list" where
  "cfde = map (\<lambda>(a, b). (none_to_zero a, none_to_zero b)) coefficients_for_de"

definition jde_of :: "real \<Rightarrow> real \<Rightarrow> real" where
  "jde_of jd dt = jd + dt / 86400"

definition jc_of :: "real \<Rightarrow> real" where
  "jc_of jd = (jd - 2451545) / 36525"

definition jce_of :: "real \<Rightarrow> real" where
  "jce_of jde = (jde - 2451545) / 36525"

definition jme_of :: "real \<Rightarrow> real" where
  "jme_of jce = jce / 10"

definition nutation_x :: "real \<Rightarrow> real \<times> real \<times> real \<times> real \<times> real" where
  "nutation_x jce =
     (radians (297.85036 + 445267.111480 * jce - 0.0019142 * jce\<^sup>2 + jce ^ 3 / 189474),
      radians (357.52772 + 35999.050340 * jce - 0.0001603 * jce\<^sup>2 - jce ^ 3 / 300000),
      radians (134.96298 + 477198.867398 * jce + 0.0086972 * jce\<^sup>2 + jce ^ 3 / 56250),
      radians (93.27191 + 483202.017538 * jce - 0.0036825 * jce\<^sup>2 + jce ^ 3 / 327270),
      radians (125.04452 - 1934.136261 * jce + 0.0020708 * jce\<^sup>2 + jce ^ 3 / 450000))"

definition sum_x_i :: "real \<times> real \<times> real \<times> real \<times> real
    \<Rightarrow> real \<times> real \<times> real \<times> real \<times> real \<Rightarrow> real" where
  "sum_x_i x row =
     (case x of (x0, x1, x2, x3, x4) \<Rightarrow>
      case row of (c0, c1, c2, c3, c4) \<Rightarrow> x0 * c0 + x1 * c1 + x2 * c2 + x3 * c3 + x4 * c4)"

definition nutation_dy :: "real \<Rightarrow> real" where
  "nutation_dy jce =
     sum_list (map (\<lambda>(row, (a, b)). (a + b * jce) * sin (sum_x_i (nutation_x jce) row))
                   (zip coefficients_for_sin_terms cfdy)) / 36000000"

definition nutation_de :: "real \<Rightarrow> real" where
  "nutation_de jce =
     sum_list (map (\<lambda>(row, (a, b)). (a + b * jce) * cos (sum_x_i (nutation_x jce) row))
                   (zip coefficients_for_sin_terms cfde)) / 36000000"

definition mean_obliquity :: "real \<Rightarrow> real" where
  "mean_obliquity jme =
     (let u = jme / 10
      in 84381.448 - 4680.93 * u - 1.55 * u\<^sup>2 + 1999.25 * u ^ 3 - 51.38 * u ^ 4 - 249.67 * u ^ 5
         - 39.05 * u ^ 6 + 7.12 * u ^ 7 + 27.87 * u ^ 8 + 5.79 * u ^ 9 + 2.45 * u ^ 10)"

definition true_obliquity :: "real \<Rightarrow> real \<Rightarrow> real" where
  "true_obliquity jme de = mean_obliquity jme / 3600 + de"

definition periodic_sum :: "(real \<times> real \<times> real) list \<Rightarrow> real \<Rightarrow> real" where
  "periodic_sum terms jme = sum_list (map (\<lambda>(a, b, c). a * cos (b + c * jme)) terms)"

definition heliocentric_l :: "real \<Rightarrow> real" where
  "heliocentric_l jme =
     (let l0 = periodic_sum earth_periodic_terms_l0 jme;
          l1 = periodic_sum earth_periodic_terms_l1 jme;
          l2 = periodic_sum earth_periodic_terms_l2 jme;
          l3 = periodic_sum earth_periodic_terms_l3 jme;
          l4 = periodic_sum earth_periodic_terms_l4 jme;
          l5 = periodic_sum earth_periodic_terms_l5 jme;
          l = (l0 + l1 * jme + l2 * jme\<^sup>2 + l3 * jme ^ 3 + l4 * jme ^ 4 + l5 * jme ^ 5) / 100000000
      in py_mod (degrees l) 360)"

definition heliocentric_b :: "real \<Rightarrow> real" where
  "heliocentric_b jme =
     (let b0 = periodic_sum earth_periodic_terms_b0 jme;
          b1 = periodic_sum earth_periodic_terms_b1 jme;
          B = (b0 + b1 * jme) / 100000000
      in degrees B)"

definition heliocentric_r :: "real \<Rightarrow> real" where
  "heliocentric_r jme =
     (let r0 = periodic_sum earth_periodic_terms_r0 jme;
          r1 = periodic_sum earth_periodic_terms_r1 jme;
          r2 = periodic_sum earth_periodic_terms_r2 jme;
          r3 = periodic_sum earth_periodic_terms_r3 jme;
          r4 = periodic_sum earth_periodic_terms_r4 jme
      in (r0 + r1 * jme + r2 * jme\<^sup>2 + r3 * jme ^ 3 + r4 * jme ^ 4) / 100000000)"

definition geocentric_theta2 :: "real \<Rightarrow> real" where
  "geocentric_theta2 jme = py_mod (heliocentric_l jme + 180) 360"

definition apparent_longitude :: "real \<Rightarrow> real \<Rightarrow> real \<Rightarrow> error + real" where
  "apparent_longitude theta2 dy r =
     andthen (fdiv 20.4898 (3600 * r)) (\<lambda>q.
     let dt_2 = - q in Inr (theta2 + dy + dt_2))"

definition right_ascension :: "real \<Rightarrow> real \<Rightarrow> real \<Rightarrow> real" where
  "right_ascension l e_2 b =
     py_mod (degrees (math_atan2
        (sin (radians l) * cos (radians e_2) - tan (radians b) * sin (radians e_2))
        (cos (radians l)))) 360"

definition declination :: "real \<Rightarrow> real \<Rightarrow> real \<Rightarrow> error + real" where
  "declination l e_2 b =
     andthen (math_asin (sin (radians b) * cos (radians e_2)
                + cos (radians b) * sin (radians e_2) * sin (radians l))) (\<lambda>v.
     Inr (degrees v))"

definition sideral_time :: "int \<Rightarrow> int \<Rightarrow> real \<Rightarrow> real \<Rightarrow> real \<Rightarrow> real \<Rightarrow> real \<Rightarrow> real \<Rightarrow> real" where
  "sideral_time year month day hour minute second microsecond dt =
     (let jd = julian_day year month day hour minute second microsecond;
          jde = jde_of jd dt;
          jc = jc_of jd;
          jce = jce_of jde;
          jme = jme_of jce;
          dy = nutation_dy jce;
          de = nutation_de jce;
          e_2 = true_obliquity jme de;
          n0 = 280.46061837 + 360.98564736629 * (jd - 2451545) + 0.000387933 * jc\<^sup>2
               - jc ^ 3 / 38710000;
          n0 = py_mod n0 360
      in n0 + dy * cos (radians e_2))"

definition geocentric_ra_and_d :: "int \<Rightarrow> int \<Rightarrow> real \<Rightarrow> real \<Rightarrow> real \<Rightarrow> real \<Rightarrow> real \<Rightarrow> real
    \<Rightarrow> error + (real \<times> real)" where
  "geocentric_ra_and_d year month day hour minute second microsecond dt =
     (let jd = julian_day year month day hour minute second microsecond;
          jde = jde_of jd dt;
          jce = jce_of jde;
          jme = jme_of jce;
          r = heliocentric_r jme;
          b = - heliocentric_b jme;
          theta2 = geocentric_theta2 jme;
          dy = nutation_dy jce;
          de = nutation_de jce;
          e_2 = true_obliquity jme de
      in andthen (apparent_longitude theta2 dy r) (\<lambda>l.
         let a2 = right_ascension l e_2 b
         in andthen (declination l e_2 b) (\<lambda>d. Inr (d, a2))))"

definition sun_distance :: "int \<Rightarrow> int \<Rightarrow> real \<Rightarrow> real \<Rightarrow> real \<Rightarrow> real \<Rightarrow> real \<Rightarrow> real \<Rightarrow> real" where
  "sun_distance year month day hour minute second microsecond dt =
     (let jd = julian_day year month day hour minute second microsecond;
          jde = jde_of jd dt;
          jce = jce_of jde;
          jme = jme_of jce
      in heliocentric_r jme)"

subsection \<open>Dates\<close>

text \<open>
  \<open>spa\<close> steps one day back and forth with \<open>datetime\<close> and \<open>timedelta\<close> (lines 832-834).
  A \<open>datetime\<close> is modelled by its number of microseconds since the midnight that
  begins day 0 of the proleptic Gregorian calendar, as CPython computes with it:
  the constructor refuses a year outside 1..9999, a month outside 1..12 and a day the
  month does not have (\<open>ValueError\<close>), \<open>timedelta(seconds=dt)\<close> rounds to the microsecond,
  half to even, and refuses more than 999999999 days, and a sum outside the years
  1..9999 is an \<open>OverflowError\<close>.
\<close>

definition is_leap :: "int \<Rightarrow> bool" where
  "is_leap year = (year mod 4 = 0 \<and> (year mod 100 \<noteq> 0 \<or> year mod 400 = 0))"

definition days_before_year :: "int \<Rightarrow> int" where
  "days_before_year year =
     (let y = year - 1 in y * 365 + y div 4 - y div 100 + y div 400)"

definition DAYS_IN_MONTH :: "int list" where
  "DAYS_IN_MONTH = [- 1, 31, 28, 31, 30, 31, 30, 31, 31, 30, 31, 30, 31]"

definition DAYS_BEFORE_MONTH :: "int list" where
  "DAYS_BEFORE_MONTH = [- 1, 0, 31, 59, 90, 120, 151, 181, 212, 243, 273, 304, 334]"

definition days_in_month :: "int \<Rightarrow> int \<Rightarrow> int" where
  "days_in_month year month =
     (if month = 2 \<and> is_leap year then 29 else DAYS_IN_MONTH ! nat month)"

definition days_before_month :: "int \<Rightarrow> int \<Rightarrow> int" where
  "days_before_month year month =
     DAYS_BEFORE_MONTH ! nat month + (if month > 2 \<and> is_leap year then 1 else 0)"

definition ymd2ord :: "int \<Rightarrow> int \<Rightarrow> int \<Rightarrow> int" where
  "ymd2ord year month day = days_before_year year + days_before_month year month + day"

definition ord2ymd :: "int \<Rightarrow> int \<times> int \<times> int" where
  "ord2ymd n0 =
     (let n = n0 - 1;
          n400 = n div 146097; n = n mod 146097;
          year = n400 * 400 + 1;
          n100 = n div 36524; n = n mod 36524;
          n4 = n div 1461; n = n mod 1461;
          n1 = n div 365; n = n mod 365;
          year = year + n100 * 100 + n4 * 4 + n1
      in if n1 = 4 \<or> n100 = 4 then (year - 1, 12, 31)
         else
           let leapyear = (n1 = 3 \<and> (n4 \<noteq> 24 \<or> n100 = 3));
               month = (n + 50) div 32;
               preceding = DAYS_BEFORE_MONTH ! nat month + (if month > 2 \<and> leapyear then 1 else 0)
           in if preceding > n then
                let month = month - 1;
                    preceding = preceding - (DAYS_IN_MONTH ! nat month + (if month = 2 \<and> leapyear then 1 else 0))
                in (year, month, n - preceding + 1)
              else (year, month, n - preceding + 1))"

definition MAXORDINAL :: int where
  "MAXORDINAL = 3652059"

definition DAY_US :: int where
  "DAY_US = 86400000000"

definition datetime :: "int \<Rightarrow> int \<Rightarrow> int \<Rightarrow> error + int" where
  "datetime year month day =
     (if 1 \<le> year \<and> year \<le> 9999 \<and> 1 \<le> month \<and> month \<le> 12
         \<and> 1 \<le> day \<and> day \<le> days_in_month year month
      then Inr (ymd2ord year month day * DAY_US)
      else Inl ValueError)"

definition round_half_even :: "real \<Rightarrow> int" where
  "round_half_even x =
     (let f = \<lfloor>x\<rfloor>; r = x - of_int f
      in if r < 1 / 2 then f else if 1 / 2 < r then f + 1 else if even f then f else f + 1)"

definition timedelta_seconds :: "real \<Rightarrow> error + int" where
  "timedelta_seconds seconds =
     (let us = round_half_even (seconds * 1000000)
      in if \<bar>us div DAY_US\<bar> \<le> 999999999 then Inr us else Inl OverflowError)"

definition datetime_add :: "int \<Rightarrow> int \<Rightarrow> error + int" where
  "datetime_add stamp us =
     (let s = stamp + us
      in if 1 \<le> s div DAY_US \<and> s div DAY_US \<le> MAXORDINAL then Inr s else Inl OverflowError)"

definition datetime_fields :: "int \<Rightarrow> int \<times> int \<times> int \<times> int \<times> int \<times> int \<times> int" where
  "datetime_fields stamp =
     (let (year, month, day) = ord2ymd (stamp div DAY_US);
          us = stamp mod DAY_US
      in (year, month, day, us div 3600000000, (us div 60000000) mod 60, (us div 1000000) mod 60,
          us mod 1000000))"

subsection \<open>Topocentric position\<close>

text \<open>
  Lines 786-817 of \<open>spa\<close>. The refraction correction of lines 802-806 is
  \<^verbatim>\<open>
    if e0 >= -1 * (0.26667 + 0.5667):
        de2 = (pressure / 1010) * (283 / (273 + temperature)) * (1.02 / (60 * math.tan(math.radians(e0 + 10.3 / (e0 + 5.11)))))
    else:
        de2 = 0
  \<close>
  \<open>refraction_formula\<close> is its first branch, with its three divisions.
\<close>

definition refraction_formula :: "real \<Rightarrow> real \<Rightarrow> real \<Rightarrow> error + real" where
  "refraction_formula e0 pressure temperature =
     andthen (fdiv 283 (273 + temperature)) (\<lambda>q.
     andthen (fdiv 10.3 (e0 + 5.11)) (\<lambda>c.
     andthen (div_by_tan 1.02 60 (radians (e0 + c))) (\<lambda>t.
     Inr ((pressure / 1010) * q * t))))"

definition spa_refraction :: "real \<Rightarrow> real \<Rightarrow> real \<Rightarrow> error + real" where
  "spa_refraction e0 pressure temperature =
     (if e0 \<ge> - 1 * (0.26667 + 0.5667) then refraction_formula e0 pressure temperature
      else Inr 0)"

definition observer_x2 :: "real \<Rightarrow> real \<Rightarrow> real" where
  "observer_x2 latitude elevation =
     (let u2 = degrees (arctan (0.99664719 * tan (radians latitude)))
      in cos (radians u2) + elevation / 6378140 * cos (radians latitude))"

definition observer_y :: "real \<Rightarrow> real \<Rightarrow> real" where
  "observer_y latitude elevation =
     (let u2 = degrees (arctan (0.99664719 * tan (radians latitude)))
      in 0.99664719 * sin (radians u2) + elevation / 6378140 * sin (radians latitude))"

definition parallax_da :: "real \<Rightarrow> real \<Rightarrow> real \<Rightarrow> real \<Rightarrow> real" where
  "parallax_da x2 xi h d =
     degrees (math_atan2 (- x2 * sin (radians xi) * sin (radians h))
                         (cos (radians d) - x2 * sin (radians xi) * cos (radians h)))"

definition parallax_d_prime :: "real \<Rightarrow> real \<Rightarrow> real \<Rightarrow> real \<Rightarrow> real \<Rightarrow> real \<Rightarrow> real" where
  "parallax_d_prime x2 y xi h d da =
     degrees (math_atan2 ((sin (radians d) - y * sin (radians xi)) * cos (radians da))
                         (cos (radians d) - x2 * sin (radians xi) * cos (radians h)))"

definition elevation_e0 :: "real \<Rightarrow> real \<Rightarrow> real \<Rightarrow> error + real" where
  "elevation_e0 latitude d_prime h_prime =
     andthen (math_asin (sin (radians latitude) * sin (radians d_prime)
                + cos (radians latitude) * cos (radians d_prime) * cos (radians h_prime))) (\<lambda>v.
     Inr (degrees v))"

definition azimuth_gamma :: "real \<Rightarrow> real \<Rightarrow> real \<Rightarrow> real" where
  "azimuth_gamma latitude d_prime h_prime =
     py_mod (degrees (math_atan2 (sin (radians h_prime))
        (cos (radians h_prime) * sin (radians latitude)
           - tan (radians d_prime) * cos (radians latitude)))) 360"

type_synonym spa_position = "real \<times> real \<times> real \<times> real \<times> real \<times> real \<times> real"

definition spa_topocentric :: "real \<Rightarrow> real \<Rightarrow> real \<Rightarrow> real \<Rightarrow> real \<Rightarrow> real \<Rightarrow> real \<Rightarrow> real \<Rightarrow> real
    \<Rightarrow> real \<Rightarrow> real \<Rightarrow> error + spa_position" where
  "spa_topocentric n longitude a2 d r latitude elevation pressure temperature omega gamma =
     (let h = n + longitude - a2;
          h = py_mod h 360
      in andthen (fdiv 8.794 (3600 * r)) (\<lambda>xi.
         let x2 = observer_x2 latitude elevation;
             y = observer_y latitude elevation;
             da = parallax_da x2 xi h d;
             a_prime = a2 + da;
             d_prime = parallax_d_prime x2 y xi h d da;
             h_prime = h - da
         in andthen (elevation_e0 latitude d_prime h_prime) (\<lambda>e0.
            andthen (spa_refraction e0 pressure temperature) (\<lambda>de2.
            let e = e0 + de2;
                theta = 90 - e;
                gamma2 = azimuth_gamma latitude d_prime h_prime;
                f = gamma2 + 180;
                f = py_mod f 360
            in andthen (math_acos (cos (radians theta) * cos (radians omega)
                          + sin (radians omega) * sin (radians theta) * cos (radians (gamma2 - gamma)))) (\<lambda>v.
               let i = degrees v
               in Inr (i, theta, f, d_prime, h_prime, a_prime, e))))))"

subsection \<open>Equation of time, sunrise, transit and sunset\<close>

text \<open>
  Lines 820-828 (\<open>equation_of_time\<close>) and 841-912 (\<open>sun_rise_transit_set\<close>). Lines 844-854
  are
  \<^verbatim>\<open>
    if abs(acos_arguement) <= 1:
        H_0 = math.degrees(math.acos(acos_arguement))
        H_0 = H_0 % 180
        sun_time_notes = ''
    else:
        H_0 = math.degrees(math.acos(acos_arguement))
        H_0 = H_0 % 180
        sun_time_notes = 'Sun is always above or below the horizon for that day'
  \<close>
\<close>

definition equation_of_time :: "real \<Rightarrow> real \<Rightarrow> real \<Rightarrow> real \<Rightarrow> real" where
  "equation_of_time jme a2 dy e_2 =
     (let m = 280.4664567 + 360007.6982779 * jme + 0.03032028 * jme\<^sup>2 + jme ^ 3 / 49931
              - jme ^ 4 / 15300 - jme ^ 5 / 2000000;
          m = py_mod m 360;
          eot = m - 0.0057183 - a2 + dy * cos (radians e_2);
          eot_minutes = eot * 4
      in if eot_minutes > 20 then eot_minutes - 1440
         else if eot_minutes < - 20 then eot_minutes + 1440
         else eot_minutes)"

definition sunrise_hour_angle :: "real \<Rightarrow> error + (real \<times> string)" where
  "sunrise_hour_angle acos_arguement =
     (if \<bar>acos_arguement\<bar> \<le> 1 then
        andthen (math_acos acos_arguement) (\<lambda>v.
        let H_0 = degrees v;
            H_0 = py_mod H_0 180
        in Inr (H_0, ''''))
      else
        andthen (math_acos acos_arguement) (\<lambda>v.
        let H_0 = degrees v;
            H_0 = py_mod H_0 180
        in Inr (H_0, ''Sun is always above or below the horizon for that day'')))"

definition wrap_parameter :: "real \<Rightarrow> real" where
  "wrap_parameter a = (if \<bar>a\<bar> > 2 then py_mod a 1 else a)"

definition interpolate :: "real \<Rightarrow> real \<Rightarrow> real \<Rightarrow> real \<Rightarrow> real \<Rightarrow> real" where
  "interpolate v0 a b c n = v0 + (n * (a + b + c * n)) / 2"

definition limit_degrees :: "real \<Rightarrow> real" where
  "limit_degrees H = (let H = H / 360 in 360 * (H - of_int \<lfloor>H\<rfloor>))"

definition sun_altitude :: "real \<Rightarrow> real \<Rightarrow> real \<Rightarrow> error + real" where
  "sun_altitude latitude d_prime H_prime =
     andthen (math_asin (sin (radians latitude) * sin (radians d_prime)
                + cos (radians latitude) * cos (radians d_prime) * cos (radians H_prime))) (\<lambda>v.
     Inr (degrees v))"

definition sun_rise_transit_set :: "real \<Rightarrow> real \<Rightarrow> real \<Rightarrow> real \<Rightarrow> real \<times> real \<Rightarrow> real \<times> real
    \<Rightarrow> real \<times> real \<Rightarrow> error + (real \<times> real \<times> real \<times> string)" where
  "sun_rise_transit_set n longitude latitude dt dm1 d0 dp1 =
     (case dm1 of (d_m1, a_m1) \<Rightarrow> case d0 of (d_0, a_0) \<Rightarrow> case dp1 of (d_p1, a_p1) \<Rightarrow>
      let h_prime_0 = - 1 * (0.26667 + 0.5667);
          m_0 = (a_0 - longitude - n) / 360
      in andthen (fdiv (sin (radians h_prime_0) - sin (radians latitude) * sin (radians d_0))
                       (cos (radians latitude) * cos (radians d_0))) (\<lambda>acos_arguement.
         andthen (sunrise_hour_angle acos_arguement) (\<lambda>(H_0, sun_time_notes).
         let m_1 = m_0 - (H_0 / 360);
             m_2 = m_0 + (H_0 / 360);
             m_0 = py_mod m_0 1;
             m_1 = py_mod m_1 1;
             m_2 = py_mod m_2 1;
             n_0 = n + 360.985647 * m_0;
             n_1 = n + 360.985647 * m_1;
             n_2 = n + 360.985647 * m_2;
             n_english_0 = m_0 + dt / 86400;
             n_english_1 = m_1 + dt / 86400;
             n_english_2 = m_2 + dt / 86400;
             a_parameter = wrap_parameter (a_0 - a_m1);
             a_prime_parameter = wrap_parameter (d_0 - d_m1);
             b_parameter = wrap_parameter (a_p1 - a_0);
             b_prime_parameter = wrap_parameter (d_p1 - d_0);
             c_parameter = b_parameter - a_parameter;
             c_prime_parameter = b_prime_parameter - a_prime_parameter;
             a_prime_0 = interpolate a_0 a_parameter b_parameter c_parameter n_english_0;
             a_prime_1 = interpolate a_0 a_parameter b_parameter c_parameter n_english_1;
             a_prime_2 = interpolate a_0 a_parameter b_parameter c_parameter n_english_2;
             d_prime_0 = interpolate d_0 a_prime_parameter b_prime_parameter c_prime_parameter n_english_0;
             d_prime_1 = interpolate d_0 a_prime_parameter b_prime_parameter c_prime_parameter n_english_1;
             d_prime_2 = interpolate d_0 a_prime_parameter b_prime_parameter c_prime_parameter n_english_2;
             H_prime_0 = limit_degrees (n_0 + longitude - a_prime_0);
             H_prime_1 = limit_degrees (n_1 + longitude - a_prime_1);
             H_prime_2 = limit_degrees (n_2 + longitude - a_prime_2)
         in andthen (sun_altitude latitude d_prime_0 H_prime_0) (\<lambda>h_0.
            andthen (sun_altitude latitude d_prime_1 H_prime_1) (\<lambda>h_1.
            andthen (sun_altitude latitude d_prime_2 H_prime_2) (\<lambda>h_2.
            let T = m_0 - (H_prime_0 / 360)
            in andthen (fdiv (h_1 - h_prime_0)
                          (360 * cos (radians d_prime_1) * cos (radians latitude) * sin (radians H_prime_1))) (\<lambda>q1.
               let R = m_1 + q1
               in andthen (fdiv (h_2 - h_prime_0)
                            (360 * cos (radians d_prime_2) * cos (radians latitude) * sin (radians H_prime_2))) (\<lambda>q2.
                  let S = m_2 + q2;
                      T = py_mod T 1;
                      R = py_mod R 1;
                      S = py_mod S 1
                  in Inr (T * 24, R * 24, S * 24, sun_time_notes)))))))))"

subsection \<open>The calendar date of the Julian Day, and \<open>spa\<close>\<close>

definition calendar_from_jd :: "real \<Rightarrow> int \<times> int \<times> real" where
  "calendar_from_jd jd =
     (let jd_plus_5 = jd + 0.5;
          z_capital = py_int jd_plus_5;
          f_capital = jd_plus_5 - of_int z_capital;
          a_capital =
            (if z_capital < 2299161 then z_capital
             else let b_capital = py_int ((of_int z_capital - 1867216.25) / 36524.25)
                  in z_capital + 1 + b_capital - py_int (of_int b_capital / 4));
          c_capital = a_capital + 1524;
          d_capital = py_int ((of_int c_capital - 122.1) / 365.25);
          g_capital = py_int (365.25 * of_int d_capital);
          i_capital = py_int (of_int (c_capital - g_capital) / 30.6001);
          day_from_jd = of_int (c_capital - g_capital - py_int (30.6001 * of_int i_capital)) + f_capital;
          month_from_jd = (if i_capital < 14 then i_capital - 1 else i_capital - 13);
          year_from_jd = (if month_from_jd > 2 then d_capital - 4716 else d_capital - 4715)
      in (year_from_jd, month_from_jd, day_from_jd))"

type_synonym spa_return =
  "spa_position \<times> (real \<times> real \<times> real \<times> real \<times> string) \<times> (int \<times> int \<times> real)"

definition midnight_ra_and_d :: "int \<Rightarrow> real \<Rightarrow> error + (real \<times> real)" where
  "midnight_ra_and_d stamp dt =
     (case datetime_fields stamp of (year, month, day, hour, minute, second, microsecond) \<Rightarrow>
        geocentric_ra_and_d year month (of_int day) (of_int hour) (of_int minute) (of_int second)
          (of_int microsecond) dt)"

definition spa :: "int \<Rightarrow> int \<Rightarrow> real \<Rightarrow> real \<Rightarrow> real \<Rightarrow> real \<Rightarrow> real \<Rightarrow> real \<Rightarrow> real \<Rightarrow> real \<Rightarrow> real
    \<Rightarrow> real \<Rightarrow> real \<Rightarrow> real \<Rightarrow> real \<Rightarrow> error + spa_return" where
  "spa year month day hour minute second microsecond latitude longitude elevation pressure
       temperature omega gamma dt =
     (let jd = julian_day year month day hour minute second microsecond;
          jde = jde_of jd dt;
          jc = jc_of jd;
          jce = jce_of jde;
          jme = jme_of jce;
          r = heliocentric_r jme;
          b = - heliocentric_b jme;
          theta2 = geocentric_theta2 jme;
          dy = nutation_dy jce;
          de = nutation_de jce;
          e_2 = true_obliquity jme de
      in andthen (apparent_longitude theta2 dy r) (\<lambda>l.
         let n0 = 280.46061837 + 360.98564736629 * (jd - 2451545) + 0.000387933 * jc\<^sup>2
                  - jc ^ 3 / 38710000;
             n0 = py_mod n0 360;
             n = n0 + dy * cos (radians e_2);
             a2 = right_ascension l e_2 b
         in andthen (declination l e_2 b) (\<lambda>d.
            andthen (spa_topocentric n longitude a2 d r latitude elevation pressure temperature
                       omega gamma) (\<lambda>position.
            let eot_minutes = equation_of_time jme a2 dy e_2;
                n = sideral_time year month (of_int (py_int day)) 0 0 0 0 dt
            in andthen (datetime year month (py_int day)) (\<lambda>midnight.
               andthen (datetime_add midnight (- DAY_US)) (\<lambda>s.
               andthen (timedelta_seconds dt) (\<lambda>us.
               andthen (datetime_add s (- us)) (\<lambda>day_m1.
               andthen (datetime_add midnight (- us)) (\<lambda>day_0.
               andthen (datetime_add midnight DAY_US) (\<lambda>s.
               andthen (datetime_add s (- us)) (\<lambda>day_p1.
               andthen (midnight_ra_and_d day_m1 dt) (\<lambda>dm1.
               andthen (midnight_ra_and_d day_0 dt) (\<lambda>d0.
               andthen (midnight_ra_and_d day_p1 dt) (\<lambda>dp1.
               andthen (sun_rise_transit_set n longitude latitude dt dm1 d0 dp1)
                 (\<lambda>(T, R, S, sun_time_notes).
               Inr (position, (eot_minutes, T, R, S, sun_time_notes), calendar_from_jd jd))))))))))))))))"

section \<open>The Moon, and \<open>sampa\<close>\<close>

text \<open>
  Lines 313-448 of \<open>sampa\<close> compute the position of the Moon; line 452 calls \<open>spa\<close> with
  \<open>omega = 0\<close> and \<open>gamma = 0\<close>, and lines 456-497 are \<open>sampa_eclipse\<close> above. The
  topocentric stage (lines 417-448) is that of \<open>spa\<close> with the parallax of the Moon in
  the place of that of the Sun; its refraction correction (lines 436-440) is the same
  conditional as in \<open>spa\<close>.
\<close>

definition mpt :: "(real \<times> real \<times> real \<times> real \<times> real \<times> real) list" where
  "mpt = map (\<lambda>(c0, c1, c2, c3, c4, c5). (c0, c1, c2, c3, none_to_zero c4, none_to_zero c5))
             moon_periodic_terms"

definition ptml :: "(real \<times> real \<times> real \<times> real \<times> real) list" where
  "ptml = periodic_terms_for_moon_latitude"

definition multiply_l_i :: "real \<Rightarrow> real \<Rightarrow> real" where
  "multiply_l_i e c1 = (if \<bar>c1\<bar> = 1 then e else if \<bar>c1\<bar> = 2 then e\<^sup>2 else 1)"

definition moon_l_prime :: "real \<Rightarrow> real" where
  "moon_l_prime jce =
     py_mod (218.3164477 + 481267.88123421 * jce - 0.0015786 * jce\<^sup>2 + jce ^ 3 / 538841
             - jce ^ 4 / 65194000) 360"

definition moon_d :: "real \<Rightarrow> real" where
  "moon_d jce =
     py_mod (297.8501921 + 445267.1114034 * jce - 0.0018819 * jce\<^sup>2 + jce ^ 3 / 545868
             - jce ^ 4 / 113065000) 360"

definition moon_m :: "real \<Rightarrow> real" where
  "moon_m jce =
     py_mod (357.5291092 + 35999.0502909 * jce - 0.0001536 * jce\<^sup>2 + jce ^ 3 / 24490000) 360"

definition moon_m_prime :: "real \<Rightarrow> real" where
  "moon_m_prime jce =
     py_mod (134.9633964 + 477198.8675055 * jce + 0.0087414 * jce\<^sup>2 + jce ^ 3 / 69699
             - jce ^ 4 / 14712000) 360"

definition moon_f :: "real \<Rightarrow> real" where
  "moon_f jce =
     py_mod (93.2720950 + 483202.0175233 * jce - 0.0036539 * jce\<^sup>2 - jce ^ 3 / 3526000
             + jce ^ 4 / 863310000) 360"

definition moon_e :: "real \<Rightarrow> real" where
  "moon_e jce = 1 - 0.002516 * jce - 0.0000074 * jce\<^sup>2"

definition moon_argument :: "real \<Rightarrow> real \<Rightarrow> real \<Rightarrow> real \<Rightarrow> real \<Rightarrow> real" where
  "moon_argument jce c0 c1 c2 c3 =
     radians (c0 * moon_d jce + c1 * moon_m jce + c2 * moon_m_prime jce + c3 * moon_f jce)"

definition moon_l :: "real \<Rightarrow> real" where
  "moon_l jce =
     sum_list (map (\<lambda>(c0, c1, c2, c3, c4, c5).
                 c4 * multiply_l_i (moon_e jce) c1 * sin (moon_argument jce c0 c1 c2 c3)) mpt)"

definition moon_r :: "real \<Rightarrow> real" where
  "moon_r jce =
     sum_list (map (\<lambda>(c0, c1, c2, c3, c4, c5).
                 c5 * multiply_l_i (moon_e jce) c1 * cos (moon_argument jce c0 c1 c2 c3)) mpt)"

definition moon_b :: "real \<Rightarrow> real" where
  "moon_b jce =
     sum_list (map (\<lambda>(c0, c1, c2, c3, c4).
                 c4 * multiply_l_i (moon_e jce) c1 * sin (moon_argument jce c0 c1 c2 c3)) ptml)"

definition moon_longitude :: "real \<Rightarrow> real" where
  "moon_longitude jce =
     (let l_prime = moon_l_prime jce; f = moon_f jce;
          a1 = 119.75 + 131.849 * jce;
          a2 = 53.09 + 479264.29 * jce;
          dl = 3958 * sin (radians a1) + 1962 * sin (radians (l_prime - f)) + 318 * sin (radians a2);
          l_small_prime = l_prime + (moon_l jce + dl) / 1000000
      in py_mod l_small_prime 360)"

definition moon_latitude :: "real \<Rightarrow> real" where
  "moon_latitude jce =
     (let l_prime = moon_l_prime jce; f = moon_f jce; m_prime = moon_m_prime jce;
          a1 = 119.75 + 131.849 * jce;
          a3 = 313.45 + 481266.484 * jce;
          db = - 2235 * sin (radians l_prime) + 382 * sin (radians a3) + 175 * sin (radians (a1 - f))
               + 175 * sin (radians (a1 + f)) + 127 * sin (radians (l_prime - m_prime))
               - 115 * sin (radians (l_prime + m_prime));
          beta = (moon_b jce + db) / 1000000
      in py_mod beta 360)"

definition moon_delta :: "real \<Rightarrow> real" where
  "moon_delta jce = 385000.56 + moon_r jce / 1000"

definition moon_parallax :: "real \<Rightarrow> error + real" where
  "moon_parallax delta =
     andthen (fdiv 6378.14 delta) (\<lambda>q.
     andthen (math_asin q) (\<lambda>v. Inr (degrees v)))"

definition sampa_refraction :: "real \<Rightarrow> real \<Rightarrow> real \<Rightarrow> error + real" where
  "sampa_refraction e0 pressure temperature =
     (if e0 \<ge> - 1 * (0.26667 + 0.5667) then refraction_formula e0 pressure temperature
      else Inr 0)"

type_synonym moon_position = "real \<times> real \<times> real \<times> real \<times> real \<times> real"

definition sampa_topocentric :: "real \<Rightarrow> real \<Rightarrow> real \<Rightarrow> real \<Rightarrow> real \<Rightarrow> real \<Rightarrow> real \<Rightarrow> real \<Rightarrow> real
    \<Rightarrow> error + moon_position" where
  "sampa_topocentric n longitude a2 d p latitude elevation pressure temperature =
     (let h = n + longitude - a2;
          h = py_mod h 360;
          x2 = observer_x2 latitude elevation;
          y = observer_y latitude elevation;
          da = parallax_da x2 p h d;
          a_prime = a2 + da;
          d_prime = parallax_d_prime x2 y p h d da;
          h_prime = h - da
      in andthen (elevation_e0 latitude d_prime h_prime) (\<lambda>e0.
         andthen (sampa_refraction e0 pressure temperature) (\<lambda>de2.
         let e = e0 + de2;
             theta_m = 90 - e;
             gamma = azimuth_gamma latitude d_prime h_prime;
             f_m = gamma + 180;
             f_m = py_mod f_m 360
         in Inr (theta_m, f_m, d_prime, h_prime, a_prime, e))))"

type_synonym sampa_return =
  "(real \<times> real \<times> real \<times> real \<times> real \<times> real \<times> real \<times> real) \<times> eclipse_return"

definition sampa :: "int \<Rightarrow> int \<Rightarrow> real \<Rightarrow> real \<Rightarrow> real \<Rightarrow> real \<Rightarrow> real \<Rightarrow> real \<Rightarrow> real \<Rightarrow> real \<Rightarrow> real
    \<Rightarrow> real \<Rightarrow> real \<Rightarrow> real \<Rightarrow> real \<Rightarrow> real \<Rightarrow> real \<Rightarrow> real \<Rightarrow> real \<Rightarrow> error + sampa_return" where
  "sampa year month day hour minute second microsecond latitude longitude elevation pressure
         temperature ozone water aerosol albedo ba k1 dt =
     (let jd = julian_day year month day hour minute second microsecond;
          jde = jde_of jd dt;
          jc = jc_of jd;
          jce = jce_of jde;
          jme = jme_of jce;
          l_small_prime = moon_longitude jce;
          beta = moon_latitude jce;
          delta = moon_delta jce
      in andthen (moon_parallax delta) (\<lambda>p.
         let dy = nutation_dy jce;
             de = nutation_de jce;
             e = true_obliquity jme de;
             l_small = l_small_prime + dy;
             n0 = 280.46061837 + 360.98564736629 * (jd - 2451545) + 0.000387933 * jc\<^sup>2
                  - jc ^ 3 / 38710000;
             n = n0 + dy * cos (radians e);
             n = py_mod n 360;
             a2 = right_ascension l_small e beta
         in andthen (declination l_small e beta) (\<lambda>d.
            andthen (sampa_topocentric n longitude a2 d p latitude elevation pressure temperature)
              (\<lambda>(theta_m, f_m, d_prime, h_prime, a_prime, e).
            andthen (spa year month day hour minute second microsecond latitude longitude elevation
                       pressure temperature 0 0 dt) (\<lambda>spa_results.
            let theta_s = fst (snd (fst spa_results));
                f_s = fst (snd (snd (fst spa_results)))
            in andthen (sampa_eclipse theta_s f_s theta_m f_m e p delta
                          (sun_distance year month day hour minute second microsecond dt)
                          pressure ozone water aerosol albedo ba k1) (\<lambda>eclipse.
               Inr ((theta_s, f_s, theta_m, f_m, d_prime, h_prime, a_prime, e), eclipse)))))))"

section \<open>\<open>solpos\<close>\<close>






























section \<open>Results and angles\<close>

lemma andthen_value: "andthen (Inr v) f = f v"
  by (simp add: andthen_def)

lemma andthen_raise: "andthen (Inl e) f = Inl e"
  by (simp add: andthen_def)

lemma andthen_returns: "(andthen m f = Inr y) = (\<exists>x. m = Inr x \<and> f x = Inr y)"
  by (cases m) (simp_all add: andthen_def)

lemma py_mod_range: "0 < y \<Longrightarrow> 0 \<le> py_mod x y \<and> py_mod x y < y"
proof -
  assume y: "0 < y"
  have "of_int \<lfloor>x / y\<rfloor> * y \<le> x" using y by (rule floor_divide_lower)
  moreover have "x < (of_int \<lfloor>x / y\<rfloor> + 1) * y" using y by (rule floor_divide_upper)
  ultimately show ?thesis unfolding py_mod_def by (simp add: algebra_simps)
qed

lemma py_mod_id: "0 \<le> x \<Longrightarrow> x < y \<Longrightarrow> py_mod x y = x"
proof -
  assume "0 \<le> x" "x < y"
  then have "\<lfloor>x / y\<rfloor> = 0" by (simp add: floor_eq_iff)
  then show ?thesis unfolding py_mod_def by simp
qed



lemma radians_py_mod: "radians (py_mod x 360) = radians x - 2 * pi * of_int \<lfloor>x / 360\<rfloor>"
  unfolding radians_def py_mod_def by (simp add: field_simps)

lemma radians_less: "x < y \<Longrightarrow> radians x < radians y"
  unfolding radians_def by (intro divide_strict_right_mono mult_strict_right_mono) simp_all


lemma radians_minus: "radians (- x) = - radians x"
  by (simp add: radians_def)

lemma radians_180: "radians 180 = pi"
  by (simp add: radians_def)

lemma radians_360: "radians 360 = 2 * pi"
  by (simp add: radians_def)

lemma sin_radians_py_mod: "sin (radians (py_mod x 360)) = sin (radians x)"
proof -
  have "sin (radians x - 2 * pi * of_int \<lfloor>x / 360\<rfloor>) = sin (radians x + 2 * pi * of_int (- \<lfloor>x / 360\<rfloor>))"
    by simp
  also have "\<dots> = sin (radians x)"
    using sin_cos_eq_iff [of "radians x + 2 * pi * of_int (- \<lfloor>x / 360\<rfloor>)" "radians x"] by blast
  finally show ?thesis unfolding radians_py_mod .
qed

lemma cos_radians_py_mod: "cos (radians (py_mod x 360)) = cos (radians x)"
proof -
  have "cos (radians x - 2 * pi * of_int \<lfloor>x / 360\<rfloor>) = cos (radians x + 2 * pi * of_int (- \<lfloor>x / 360\<rfloor>))"
    by simp
  also have "\<dots> = cos (radians x)"
    using sin_cos_eq_iff [of "radians x + 2 * pi * of_int (- \<lfloor>x / 360\<rfloor>)" "radians x"] by blast
  finally show ?thesis unfolding radians_py_mod .
qed

lemma atan2_range: "- pi < math_atan2 y x \<and> math_atan2 y x \<le> pi"
proof -
  have b: "- (pi / 2) < arctan (y / x)" "arctan (y / x) < pi / 2"
    using arctan_bounded [of "y / x"] by simp_all
  have p: "0 < pi" by simp
  show ?thesis
  proof (cases "0 < x")
    case True
    then show ?thesis unfolding math_atan2_def using b p by simp
  next
    case False
    show ?thesis
    proof (cases "x < 0")
      case x: True
      show ?thesis
      proof (cases "0 \<le> y")
        case True
        then have "y / x \<le> 0" using x by (simp add: divide_nonneg_neg)
        then have "arctan (y / x) \<le> 0" by (simp add: arctan_le_zero_iff)
        then show ?thesis unfolding math_atan2_def using x True b by simp
      next
        case y: False
        then have "0 < y / x" using x by (simp add: divide_neg_neg)
        then have "0 < arctan (y / x)" by (simp add: zero_less_arctan_iff)
        then show ?thesis unfolding math_atan2_def using x y b by simp
      qed
    next
      case x: False
      with False have "x = 0" by simp
      then show ?thesis unfolding math_atan2_def using p by (simp; linarith)
    qed
  qed
qed

section \<open>The sun that does not rise or set\<close>

lemma sunrise_hour_angle_cases:
  "sunrise_hour_angle x =
     (if \<bar>x\<bar> \<le> 1 then Inr (py_mod (degrees (arccos x)) 180, '''') else Inl ValueError)"
  unfolding sunrise_hour_angle_def math_acos_def andthen_def Let_def
  by (auto simp: abs_le_iff)

lemma sun_rise_transit_set_note:
  assumes "sun_rise_transit_set n longitude latitude dt dm1 d0 dp1 = Inr (T, R, S, nt)"
  shows "nt = ''''"
proof -
  obtain d_m1 a_m1 d_0 a_0 d_p1 a_p1 where
    p: "dm1 = (d_m1, a_m1)" "d0 = (d_0, a_0)" "dp1 = (d_p1, a_p1)"
    by (metis surj_pair)
  from assms obtain x H_0 where h: "sunrise_hour_angle x = Inr (H_0, nt)"
    unfolding sun_rise_transit_set_def p prod.case Let_def
    by (auto simp: andthen_returns split: prod.splits)
  then show ?thesis
    unfolding sunrise_hour_angle_cases by (auto split: if_splits)
qed

lemma spa_note_empty:
  assumes "spa year month day hour minute second microsecond latitude longitude elevation pressure
             temperature omega gamma dt = Inr (position, (eot, T, R, S, nt), date)"
  shows "nt = ''''"
proof -
  from assms obtain n dm1 d0 dp1 t r s where
    "sun_rise_transit_set n longitude latitude dt dm1 d0 dp1 = Inr (t, r, s, nt)"
    unfolding spa_def Let_def
    by (auto simp: andthen_returns split: prod.splits)
  then show ?thesis by (rule sun_rise_transit_set_note)
qed

text \<open>
  Claim C1 says that when the argument of the arc cosine for the hour angle of sunrise
  exceeds 1 in magnitude, \<open>spa\<close> still returns a result, with the note
  \<open>Sun is always above or below the horizon for that day\<close>. The code does not: the
  \<open>else\<close> branch of lines 848-854 calls \<open>math.acos\<close> on that very argument, which raises
  \<open>ValueError\<close> before the note is set. So \<open>spa\<close> never returns the note
  (\<open>spa_note_empty\<close>), and the stage raises:
\<close>

theorem sunrise_hour_angle_raises:
  "1 < \<bar>acos_arguement\<bar> \<Longrightarrow> sunrise_hour_angle acos_arguement = Inl ValueError"
  unfolding sunrise_hour_angle_cases by simp

text \<open>The theorem at the argument 2.\<close>

theorem sunrise_hour_angle_raises_witness:
  "(1::real) < \<bar>2\<bar> \<and> sunrise_hour_angle 2 = Inl ValueError"
  using sunrise_hour_angle_raises [of 2] by simp

section \<open>The refraction of the Moon\<close>

lemma observer_x2_equator: "observer_x2 0 0 = 1"
  unfolding observer_x2_def Let_def radians_0 by (simp add: degrees_def radians_def)

lemma observer_y_equator: "observer_y 0 0 = 0"
  unfolding observer_y_def Let_def radians_0 by (simp add: degrees_def radians_def)

lemma radians_120: "radians 120 = pi - pi / 3"
  by (simp add: radians_def)

lemma sin_120: "sin (radians 120) = sqrt 3 / 2"
  unfolding radians_120 sin_pi_minus by (rule sin_60)

lemma cos_120: "cos (radians 120) = - (1 / 2)"
  unfolding radians_120 cos_pi_minus by (simp add: cos_60)

lemma refraction_below_horizon:
  "refraction_formula (- 30) 1010 10 \<noteq> Inr 0"
proof -
  define x :: real where "x = - 30 + 10.3 / (- 30 + 5.11)"
  have x: "- 90 < x" "x < 0" unfolding x_def by simp_all
  have r: "- (pi / 2) < radians x" "radians x < 0"
    using radians_less [OF x(1)] radians_less [OF x(2)]
    unfolding radians_minus radians_90 radians_0 by simp_all
  have c: "0 < cos (radians x)" using r by (intro cos_gt_zero_pi) simp_all
  have s: "sin (radians x) < 0" using r by (intro sin_less_zero) simp_all
  have t: "tan (radians x) \<noteq> 0" using c s by (simp add: tan_def)
  have q: "fdiv 10.3 (- 30 + 5.11) = Inr (10.3 / (- 30 + 5.11))"
    by (simp add: fdiv_def)
  have "refraction_formula (- 30) 1010 10 = Inr (1.02 / (60 * tan (radians x)))"
    unfolding refraction_formula_def q andthen_value x_def [symmetric] div_by_tan_def
    using s by (simp add: fdiv_def andthen_def)
  moreover have "1.02 / (60 * tan (radians x)) \<noteq> 0" using t by simp
  ultimately show ?thesis by simp
qed

lemma moon_below_horizon_stage:
  "sampa_topocentric 120 0 0 0 0 0 0 1010 10 = Inr (120, 270, 0, 120, 0, - 30)"
proof -
  have h: "py_mod (120 + 0 - 0) 360 = 120" by (simp add: py_mod_id)
  have da: "parallax_da 1 0 120 0 = 0"
    unfolding parallax_da_def radians_0 by (simp add: math_atan2_def degrees_def)
  have dp: "parallax_d_prime 1 0 0 120 0 0 = 0"
    unfolding parallax_d_prime_def radians_0 by (simp add: math_atan2_def degrees_def)
  have e0: "elevation_e0 0 0 120 = Inr (- 30)"
    unfolding elevation_e0_def radians_0 cos_120
    by (simp add: math_asin_def andthen_def arcsin_minus_one_half degrees_def)
  have rf: "sampa_refraction (- 30) 1010 10 = Inr 0"
    unfolding sampa_refraction_def by simp
  have g: "azimuth_gamma 0 0 120 = 90"
    unfolding azimuth_gamma_def radians_0 sin_120 cos_120
    by (simp add: math_atan2_def degrees_def py_mod_id)
  have f: "py_mod 270 360 = 270" by (simp add: py_mod_id)
  show ?thesis
    unfolding sampa_topocentric_def Let_def h observer_x2_equator observer_y_equator da dp
    by (simp add: e0 rf g f andthen_value)
qed

text \<open>
  Claim C2 says that \<open>sampa\<close> applies the refraction correction to the elevation of the
  Moon unconditionally, the threshold \<open>-(0.26667 + 0.5667)\<close> gating the solar side only.
  As stated it fails: lines 436-440 of \<open>sampa\<close> carry the same conditional as lines
  802-806 of \<open>spa\<close>. With the Moon 30 degrees below the horizon (observer on the equator,
  Moon on the celestial equator at hour angle 120, no parallax) the elevation returned
  is the unrefracted -30, though the correction formula is not zero there.
\<close>

theorem lunar_refraction_counterexample:
  "sampa_topocentric 120 0 0 0 0 0 0 1010 10 = Inr (120, 270, 0, 120, 0, - 30)
   \<and> elevation_e0 0 0 120 = Inr (- 30)
   \<and> refraction_formula (- 30) 1010 10 \<noteq> Inr 0"
proof -
  have "elevation_e0 0 0 120 = Inr (- 30)"
    unfolding elevation_e0_def radians_0 cos_120
    by (simp add: math_asin_def andthen_def arcsin_minus_one_half degrees_def)
  then show ?thesis
    using moon_below_horizon_stage refraction_below_horizon by simp
qed

text \<open>
  Claim C2, amended: in the lunar branch of \<open>sampa\<close> the refraction correction is gated
  by the same threshold as in \<open>spa\<close>: the topocentric elevation returned is
  \<open>e0 + de2\<close>, where \<open>e0\<close> is the unrefracted elevation, and \<open>de2\<close> is the correction
  formula when \<open>e0 \<ge> -(0.26667 + 0.5667)\<close> and 0 below it; the zenith angle is
  \<open>90 - e\<close>.
\<close>

theorem lunar_refraction_gated:
  assumes "sampa_topocentric n longitude a2 d p latitude elevation pressure temperature
             = Inr (theta_m, f_m, d_prime, h_prime, a_prime, e)"
  shows "\<exists>e0. elevation_e0 latitude d_prime h_prime = Inr e0 \<and> theta_m = 90 - e
     \<and> (if e0 \<ge> - 1 * (0.26667 + 0.5667)
         then refraction_formula e0 pressure temperature = Inr (e - e0)
         else e = e0)
     \<and> sampa_refraction e0 pressure temperature = spa_refraction e0 pressure temperature"
proof -
  from assms obtain e0 de2 where
    e0: "elevation_e0 latitude (parallax_d_prime (observer_x2 latitude elevation)
           (observer_y latitude elevation) p (py_mod (n + longitude - a2) 360) d
           (parallax_da (observer_x2 latitude elevation) p (py_mod (n + longitude - a2) 360) d))
           (py_mod (n + longitude - a2) 360
            - parallax_da (observer_x2 latitude elevation) p (py_mod (n + longitude - a2) 360) d)
         = Inr e0"
    and de2: "sampa_refraction e0 pressure temperature = Inr de2"
    and res: "(theta_m, f_m, d_prime, h_prime, a_prime, e) =
        (90 - (e0 + de2),
         py_mod (azimuth_gamma latitude (parallax_d_prime (observer_x2 latitude elevation)
           (observer_y latitude elevation) p (py_mod (n + longitude - a2) 360) d
           (parallax_da (observer_x2 latitude elevation) p (py_mod (n + longitude - a2) 360) d))
           (py_mod (n + longitude - a2) 360
            - parallax_da (observer_x2 latitude elevation) p (py_mod (n + longitude - a2) 360) d) + 180) 360,
         parallax_d_prime (observer_x2 latitude elevation)
           (observer_y latitude elevation) p (py_mod (n + longitude - a2) 360) d
           (parallax_da (observer_x2 latitude elevation) p (py_mod (n + longitude - a2) 360) d),
         py_mod (n + longitude - a2) 360
            - parallax_da (observer_x2 latitude elevation) p (py_mod (n + longitude - a2) 360) d,
         a2 + parallax_da (observer_x2 latitude elevation) p (py_mod (n + longitude - a2) 360) d,
         e0 + de2)"
    unfolding sampa_topocentric_def Let_def by (auto simp: andthen_returns)
  from res have e: "e = e0 + de2" and t: "theta_m = 90 - e" by simp_all
  from res e0 have e0': "elevation_e0 latitude d_prime h_prime = Inr e0" by simp
  have gate: "if e0 \<ge> - 1 * (0.26667 + 0.5667)
         then refraction_formula e0 pressure temperature = Inr (e - e0)
         else e = e0"
    using de2 e unfolding sampa_refraction_def by (simp split: if_splits)
  have same: "sampa_refraction e0 pressure temperature = spa_refraction e0 pressure temperature"
    unfolding sampa_refraction_def spa_refraction_def ..
  from e0' t gate same show ?thesis by blast
qed

text \<open>The theorem with the Moon 30 degrees below the horizon.\<close>

theorem lunar_refraction_gated_witness:
  "sampa_topocentric 120 0 0 0 0 0 0 1010 10 = Inr (120, 270, 0, 120, 0, - 30)
   \<and> (\<exists>e0. elevation_e0 0 0 120 = Inr e0 \<and> (120::real) = 90 - (- 30)
     \<and> (if e0 \<ge> - 1 * (0.26667 + 0.5667)
         then refraction_formula e0 1010 10 = Inr (- 30 - e0)
         else - 30 = e0)
     \<and> sampa_refraction e0 1010 10 = spa_refraction e0 1010 10)"
  using lunar_refraction_gated [OF moon_below_horizon_stage] moon_below_horizon_stage by simp

section \<open>The Julian Day of the dates \<open>spa\<close> accepts\<close>


lemma spa_accepts_date:
  assumes "spa year month day hour minute second microsecond latitude longitude elevation pressure
             temperature omega gamma dt = Inr res"
  shows "\<exists>stamp. datetime year month (py_int day) = Inr stamp"
  using assms unfolding spa_def Let_def
  by (auto simp: andthen_returns)

lemma sampa_accepts_date:
  assumes "sampa year month day hour minute second microsecond latitude longitude elevation pressure
             temperature ozone water aerosol albedo ba k1 dt = Inr res"
  shows "\<exists>stamp. datetime year month (py_int day) = Inr stamp"
proof -
  from assms obtain r where
    "spa year month day hour minute second microsecond latitude longitude elevation pressure
       temperature 0 0 dt = Inr r"
    unfolding sampa_def Let_def
    by (auto simp: andthen_returns split: prod.splits)
  then show ?thesis by (rule spa_accepts_date)
qed




section \<open>The ranges of the angles\<close>





lemma radians_nonneg: "0 \<le> x \<Longrightarrow> 0 \<le> radians x"
  unfolding radians_def by simp







subsection \<open>\<open>solpos\<close> at 89 degrees south on 21 June 2000\<close>


























subsection \<open>What the reductions give\<close>

text \<open>
  \<open>x % 360\<close> lies in \<open>[0, 360)\<close>, \<open>math.atan2\<close> in \<open>(-\<pi>, \<pi>]\<close>. The topocentric right
  ascension and hour angle of \<open>spa\<close> are \<open>a2 + da\<close> and \<open>h - da\<close> (lines 794, 796), the
  parallax \<open>da\<close> being the degrees of an \<open>atan2\<close>; they are not reduced again.
\<close>

lemma degrees_atan2_range: "- 180 < degrees (math_atan2 y x) \<and> degrees (math_atan2 y x) \<le> 180"
proof -
  have "- pi < math_atan2 y x" "math_atan2 y x \<le> pi" using atan2_range [of y x] by simp_all
  then show ?thesis unfolding degrees_def by (simp add: field_simps)
qed

lemma right_ascension_range: "0 \<le> right_ascension l e_2 b \<and> right_ascension l e_2 b < 360"
  unfolding right_ascension_def by (rule py_mod_range) simp




lemma spa_topocentric_ranges:
  assumes "spa_topocentric n longitude a2 d r latitude elevation pressure temperature omega gamma
             = Inr (i, theta, f, d_prime, h_prime, a_prime, e)"
  shows "0 \<le> f \<and> f < 360 \<and> a2 - 180 < a_prime \<and> a_prime \<le> a2 + 180
       \<and> - 180 \<le> h_prime \<and> h_prime < 540"
proof -
  define h where "h = py_mod (n + longitude - a2) 360"
  from assms obtain xi where
    res: "(i, theta, f, d_prime, h_prime, a_prime, e) =
      (i, theta,
       py_mod (azimuth_gamma latitude d_prime h_prime + 180) 360, d_prime,
       h - parallax_da (observer_x2 latitude elevation) xi h d,
       a2 + parallax_da (observer_x2 latitude elevation) xi h d, e)"
    unfolding spa_topocentric_def Let_def h_def [symmetric]
    by (auto simp: andthen_returns)
  define da where "da = parallax_da (observer_x2 latitude elevation) xi h d"
  have da: "- 180 < da" "da \<le> 180"
    unfolding da_def parallax_da_def using degrees_atan2_range by simp_all
  have h: "0 \<le> h" "h < 360" unfolding h_def using py_mod_range [of 360] by simp_all
  have f: "0 \<le> f" "f < 360" using res py_mod_range [of 360] by simp_all
  from res have "h_prime = h - da" "a_prime = a2 + da" unfolding da_def by simp_all
  with da h f show ?thesis by simp
qed


lemma spa_position_ranges:
  assumes "spa year month day hour minute second microsecond latitude longitude elevation pressure
             temperature omega gamma dt
           = Inr ((i, theta, f, d_prime, h_prime, a_prime, e), sun_times, date)"
  shows "0 \<le> f \<and> f < 360 \<and> - 180 < a_prime \<and> a_prime < 540 \<and> - 180 \<le> h_prime \<and> h_prime < 540"
proof -
  from assms obtain n a2 d r where
    "spa_topocentric n longitude a2 d r latitude elevation pressure temperature omega gamma
       = Inr (i, theta, f, d_prime, h_prime, a_prime, e)"
    and "0 \<le> a2 \<and> a2 < 360"
    unfolding spa_def Let_def
    using right_ascension_range
    by (auto simp: andthen_returns split: prod.splits)
  with spa_topocentric_ranges [OF this(1)] show ?thesis by simp
qed


subsection \<open>The topocentric stage returns\<close>

text \<open>
  The arguments of \<open>math.asin\<close> in the stage are of the form
  \<open>sin a sin b + cos a cos b cos c\<close>, within \<open>[-1, 1]\<close>; the tangent of the refraction
  formula is taken at an angle between 0 and 90 degrees.
\<close>

lemma spherical_bound:
  assumes "- 1 \<le> c" "c \<le> 1"
  shows "- 1 \<le> sin a * sin b + cos a * cos b * c \<and> sin a * sin b + cos a * cos b * c \<le> (1::real)"
proof -
  define p where "p = cos (a - b)"
  define q where "q = - cos (a + b)"
  have p: "- 1 \<le> p" "p \<le> 1" and q: "- 1 \<le> q" "q \<le> 1" unfolding p_def q_def by simp_all
  have e: "sin a * sin b + cos a * cos b * c = (1 + c) / 2 * p + (1 - c) / 2 * q"
    unfolding p_def q_def cos_diff cos_add by (simp add: field_simps)
  have w: "0 \<le> (1 + c) / 2" "0 \<le> (1 - c) / 2" using assms by simp_all
  have "(1 + c) / 2 * p \<le> (1 + c) / 2 * 1" "(1 - c) / 2 * q \<le> (1 - c) / 2 * 1"
    using w p q by (intro mult_left_mono; simp)+
  moreover have "(1 + c) / 2 * - 1 \<le> (1 + c) / 2 * p" "(1 - c) / 2 * - 1 \<le> (1 - c) / 2 * q"
    using w p q by (intro mult_left_mono; simp)+
  ultimately show ?thesis unfolding e by (simp add: field_simps)
qed


lemma degrees_arcsin_range:
  assumes "- 1 \<le> x" "x \<le> 1"
  shows "- 90 \<le> degrees (arcsin x) \<and> degrees (arcsin x) \<le> 90"
proof -
  have "- (pi / 2) \<le> arcsin x" "arcsin x \<le> pi / 2" using arcsin_bounded [OF assms] by simp_all
  then show ?thesis unfolding degrees_def by (simp add: field_simps)
qed

lemma elevation_e0_returns:
  "\<exists>e0. elevation_e0 latitude d_prime h_prime = Inr e0 \<and> - 90 \<le> e0 \<and> e0 \<le> 90"
proof -
  define x where "x = sin (radians latitude) * sin (radians d_prime)
                + cos (radians latitude) * cos (radians d_prime) * cos (radians h_prime)"
  have x: "- 1 \<le> x" "x \<le> 1"
    unfolding x_def using spherical_bound [of "cos (radians h_prime)"] by simp_all
  then have "elevation_e0 latitude d_prime h_prime = Inr (degrees (arcsin x))"
    unfolding elevation_e0_def x_def [symmetric] math_asin_def by (simp add: andthen_value)
  with degrees_arcsin_range [OF x] show ?thesis by simp
qed

lemma sun_altitude_returns: "\<exists>h. sun_altitude latitude d_prime H_prime = Inr h"
proof -
  define x where "x = sin (radians latitude) * sin (radians d_prime)
                + cos (radians latitude) * cos (radians d_prime) * cos (radians H_prime)"
  have x: "- 1 \<le> x" "x \<le> 1"
    unfolding x_def using spherical_bound [of "cos (radians H_prime)"] by simp_all
  then show ?thesis
    unfolding sun_altitude_def x_def [symmetric] math_asin_def by (simp add: andthen_value)
qed

lemma refraction_formula_returns:
  assumes "- 1 * (0.26667 + 0.5667) \<le> e0" "e0 \<le> 90" "temperature \<noteq> - 273"
  shows "\<exists>v. refraction_formula e0 pressure temperature = Inr v"
proof -
  define q where "q = 10.3 / (e0 + 5.11)"
  define x where "x = e0 + q"
  have den: "4 < e0 + 5.11" using assms by simp
  have q0: "0 < q" unfolding q_def using den by simp
  have q1: "q \<le> 10.3 / 4" unfolding q_def using den by (intro divide_left_mono) simp_all
  have q2: "2 \<le> q" if "e0 < 0"
  proof -
    have "e0 + 5.11 \<le> 5.11" using that by simp
    then have "10.3 / 5.11 \<le> q" unfolding q_def using den by (intro divide_left_mono) simp_all
    then show ?thesis by simp
  qed
  have lo: "0 < x"
  proof (cases "0 \<le> e0")
    case True with q0 show ?thesis unfolding x_def by linarith
  next
    case False
    then have "2 \<le> q" using q2 by simp
    moreover have "- 1 \<le> e0" using assms(1) by simp
    ultimately show ?thesis unfolding x_def by linarith
  qed
  have "q \<le> 3" using q1 by simp
  then have hi: "x < 180" unfolding x_def using assms(2) by linarith
  have "radians 0 < radians x" "radians x < radians 180" using lo hi by (intro radians_less; simp)+
  then have "0 < sin (radians x)" unfolding radians_0 radians_180 by (intro sin_gt_zero) simp_all
  then have s: "sin (radians (e0 + 10.3 / (e0 + 5.11))) \<noteq> 0" unfolding x_def q_def by simp
  have t: "273 + temperature \<noteq> 0" using assms(3) by simp
  have d: "e0 + 5.11 \<noteq> 0" using den by simp
  have f1: "fdiv 283 (273 + temperature) = Inr (283 / (273 + temperature))"
    using t by (simp add: fdiv_def)
  have f2: "fdiv 10.3 (e0 + 5.11) = Inr (10.3 / (e0 + 5.11))"
    using d by (simp only: fdiv_def if_False)
  have f3: "div_by_tan 1.02 60 (radians (e0 + 10.3 / (e0 + 5.11)))
          = Inr (1.02 / (60 * tan (radians (e0 + 10.3 / (e0 + 5.11)))))"
    using s by (simp only: div_by_tan_def if_False)
  show ?thesis
    unfolding refraction_formula_def f1 andthen_value f2 f3 by blast
qed


lemma sampa_refraction_returns:
  assumes "e0 \<le> 90" "temperature \<noteq> - 273"
  shows "\<exists>v. sampa_refraction e0 pressure temperature = Inr v"
  unfolding sampa_refraction_def
  using refraction_formula_returns [OF _ assms] by simp


lemma sampa_topocentric_returns:
  assumes "temperature \<noteq> - 273"
  shows "\<exists>position. sampa_topocentric n longitude a2 d p latitude elevation pressure temperature
            = Inr position"
proof -
  define h where "h = py_mod (n + longitude - a2) 360"
  define da where "da = parallax_da (observer_x2 latitude elevation) p h d"
  define dp where "dp = parallax_d_prime (observer_x2 latitude elevation)
                          (observer_y latitude elevation) p h d da"
  obtain e0 where e0: "elevation_e0 latitude dp (h - da) = Inr e0" and b: "e0 \<le> 90"
    using elevation_e0_returns by blast
  obtain de2 where de2: "sampa_refraction e0 pressure temperature = Inr de2"
    using sampa_refraction_returns [OF b assms] by blast
  show ?thesis
    unfolding sampa_topocentric_def Let_def h_def [symmetric] da_def [symmetric]
      dp_def [symmetric] e0 de2 andthen_value
    by blast
qed

lemma declination_value:
  "declination l e_2 b = Inr (degrees (arcsin (sin (radians b) * cos (radians e_2)
                + cos (radians b) * sin (radians e_2) * sin (radians l))))"
proof -
  have "- 1 \<le> sin (radians b) * cos (radians e_2) + cos (radians b) * sin (radians e_2) * sin (radians l)
      \<and> sin (radians b) * cos (radians e_2) + cos (radians b) * sin (radians e_2) * sin (radians l) \<le> 1"
    using spherical_bound [of "sin (radians l)" "radians b" "pi / 2 - radians e_2"]
    by (simp add: sin_diff cos_diff)
  then show ?thesis unfolding declination_def math_asin_def by (simp add: andthen_value)
qed

subsection \<open>A right ascension below zero\<close>








section \<open>The Sun of \<open>sampa\<close>\<close>

text \<open>
  Line 452 of \<open>sampa\<close> calls \<open>spa\<close> on its own date, time, place, pressure, temperature
  and \<open>dt\<close>, with \<open>omega = 0\<close> and \<open>gamma = 0\<close>; lines 454-455 read the zenith angle and
  the azimuth off the result, and line 497 returns them.
\<close>

lemma sampa_calls_spa:
  assumes "sampa year month day hour minute second microsecond latitude longitude elevation pressure
             temperature ozone water aerosol albedo ba k1 dt
           = Inr ((theta_s, f_s, theta_m, f_m, d_prime, h_prime, a_prime, e), eclipse)"
  shows "\<exists>i d_s h_s a_s e_s sun_times date.
           spa year month day hour minute second microsecond latitude longitude elevation pressure
             temperature 0 0 dt
           = Inr ((i, theta_s, f_s, d_s, h_s, a_s, e_s), sun_times, date)"
proof -
  from assms obtain r where
    r: "spa year month day hour minute second microsecond latitude longitude elevation pressure
       temperature 0 0 dt = Inr r"
    and t: "theta_s = fst (snd (fst r))" and f: "f_s = fst (snd (snd (fst r)))"
    unfolding sampa_def Let_def
    by (auto simp: andthen_returns split: prod.splits)
  obtain i th fa d_s h_s a_s e_s sun_times date where
    "r = ((i, th, fa, d_s, h_s, a_s, e_s), sun_times, date)"
    by (metis surj_pair)
  with r t f show ?thesis by (simp only: fst_conv snd_conv) blast
qed

text \<open>
  Claim C9: whenever \<open>sampa\<close> returns, \<open>spa\<close> on the same date, time, observer location,
  elevation, pressure, temperature and \<open>dt\<close>, with \<open>omega = 0\<close> and \<open>gamma = 0\<close>, returns too,
  and the sun topocentric zenith angle and azimuth of \<open>sampa\<close> are the topocentric zenith
  and azimuth of that result.
\<close>

theorem sampa_sun_is_spa:
  "(case sampa year month day hour minute second microsecond latitude longitude elevation pressure
           temperature ozone water aerosol albedo ba k1 dt of
      Inl raised \<Rightarrow> True
    | Inr ((theta_s, f_s, theta_m, f_m, d_prime, h_prime, a_prime, e), eclipse) \<Rightarrow>
        (case spa year month day hour minute second microsecond latitude longitude elevation
                pressure temperature 0 0 dt of
           Inl raised \<Rightarrow> False
         | Inr ((i, theta, f, d_s, h_s, a_s, e_s), sun_times, date) \<Rightarrow>
             theta_s = theta \<and> f_s = f))"
proof (cases "sampa year month day hour minute second microsecond latitude longitude elevation
                pressure temperature ozone water aerosol albedo ba k1 dt")
  case (Inl raised)
  then show ?thesis by simp
next
  case (Inr res)
  obtain theta_s f_s theta_m f_m d_prime h_prime a_prime e eclipse where
    "res = ((theta_s, f_s, theta_m, f_m, d_prime, h_prime, a_prime, e), eclipse)"
    by (metis surj_pair)
  with Inr have s: "sampa year month day hour minute second microsecond latitude longitude elevation
      pressure temperature ozone water aerosol albedo ba k1 dt
    = Inr ((theta_s, f_s, theta_m, f_m, d_prime, h_prime, a_prime, e), eclipse)" by simp
  from sampa_calls_spa [OF s] obtain i d_s h_s a_s e_s sun_times date where
    "spa year month day hour minute second microsecond latitude longitude elevation pressure
       temperature 0 0 dt
     = Inr ((i, theta_s, f_s, d_s, h_s, a_s, e_s), sun_times, date)" by blast
  with s show ?thesis by simp
qed

end
